theory Spec2Isabelle
  imports Complex_Main
begin

section \<open>JavaScript numbers\<close>

text \<open>
  The solver computes with JavaScript numbers. They are modelled as the exact reals
  extended with the two infinities and NaN, so that a division by zero, a comparison
  with NaN and an average over an empty list behave as they do in the program.
  Rounding to double precision, overflow and the sign of zero are not modelled: a zero
  divisor is read as \<open>+0\<close>.

  The model and the program agree where the arithmetic of the program is exact in
  double precision (small integers and dyadic fractions, as in the scenarios below), and
  on what depends only on the comparisons and the control flow. What depends on the
  rounding, such as a quotient that rounds up to an integer, a product that rounds above
  its exact value or a loop step that the counter absorbs, is outside the model and is
  not derived from it.
\<close>

datatype jsnum = Fin real | PInf | NInf | NaN

instantiation jsnum :: "{zero, one, plus, uminus, minus, times, divide, ord}"
begin

definition zero_jsnum :: jsnum where
  "zero_jsnum = Fin 0"

definition one_jsnum :: jsnum where
  "one_jsnum = Fin 1"

fun plus_jsnum :: "jsnum \<Rightarrow> jsnum \<Rightarrow> jsnum" where
  "plus_jsnum (Fin a) (Fin b) = Fin (a + b)"
| "plus_jsnum NaN _ = NaN"
| "plus_jsnum _ NaN = NaN"
| "plus_jsnum PInf NInf = NaN"
| "plus_jsnum NInf PInf = NaN"
| "plus_jsnum PInf _ = PInf"
| "plus_jsnum _ PInf = PInf"
| "plus_jsnum NInf _ = NInf"
| "plus_jsnum _ NInf = NInf"

fun uminus_jsnum :: "jsnum \<Rightarrow> jsnum" where
  "uminus_jsnum (Fin a) = Fin (- a)"
| "uminus_jsnum PInf = NInf"
| "uminus_jsnum NInf = PInf"
| "uminus_jsnum NaN = NaN"

definition minus_jsnum :: "jsnum \<Rightarrow> jsnum \<Rightarrow> jsnum" where
  "minus_jsnum a b = a + (- b)"

fun times_jsnum :: "jsnum \<Rightarrow> jsnum \<Rightarrow> jsnum" where
  "times_jsnum (Fin a) (Fin b) = Fin (a * b)"
| "times_jsnum NaN _ = NaN"
| "times_jsnum _ NaN = NaN"
| "times_jsnum PInf (Fin b) = (if b = 0 then NaN else if 0 < b then PInf else NInf)"
| "times_jsnum NInf (Fin b) = (if b = 0 then NaN else if 0 < b then NInf else PInf)"
| "times_jsnum (Fin a) PInf = (if a = 0 then NaN else if 0 < a then PInf else NInf)"
| "times_jsnum (Fin a) NInf = (if a = 0 then NaN else if 0 < a then NInf else PInf)"
| "times_jsnum PInf PInf = PInf"
| "times_jsnum PInf NInf = NInf"
| "times_jsnum NInf PInf = NInf"
| "times_jsnum NInf NInf = PInf"

fun divide_jsnum :: "jsnum \<Rightarrow> jsnum \<Rightarrow> jsnum" where
  "divide_jsnum (Fin a) (Fin b) =
     (if b = 0 then (if a = 0 then NaN else if 0 < a then PInf else NInf)
      else Fin (a / b))"
| "divide_jsnum NaN _ = NaN"
| "divide_jsnum _ NaN = NaN"
| "divide_jsnum (Fin a) _ = Fin 0"
| "divide_jsnum PInf (Fin b) = (if 0 \<le> b then PInf else NInf)"
| "divide_jsnum NInf (Fin b) = (if 0 \<le> b then NInf else PInf)"
| "divide_jsnum _ _ = NaN"

fun less_jsnum :: "jsnum \<Rightarrow> jsnum \<Rightarrow> bool" where
  "less_jsnum (Fin a) (Fin b) = (a < b)"
| "less_jsnum NaN _ = False"
| "less_jsnum _ NaN = False"
| "less_jsnum PInf _ = False"
| "less_jsnum _ NInf = False"
| "less_jsnum _ _ = True"

fun less_eq_jsnum :: "jsnum \<Rightarrow> jsnum \<Rightarrow> bool" where
  "less_eq_jsnum (Fin a) (Fin b) = (a \<le> b)"
| "less_eq_jsnum NaN _ = False"
| "less_eq_jsnum _ NaN = False"
| "less_eq_jsnum PInf PInf = True"
| "less_eq_jsnum NInf NInf = True"
| "less_eq_jsnum PInf _ = False"
| "less_eq_jsnum _ NInf = False"
| "less_eq_jsnum _ _ = True"

instance ..

end

instantiation jsnum :: inverse
begin

definition inverse_jsnum :: "jsnum \<Rightarrow> jsnum" where
  "inverse_jsnum a = divide (Fin 1) a"

instance ..

end

text \<open>\<open>Math.floor\<close>, \<open>Math.max\<close> and \<open>Math.min\<close>.\<close>

fun Math_floor :: "jsnum \<Rightarrow> jsnum" where
  "Math_floor (Fin a) = Fin (of_int \<lfloor>a\<rfloor>)"
| "Math_floor x = x"

definition max2 :: "jsnum \<Rightarrow> jsnum \<Rightarrow> jsnum" where
  "max2 a b = (if a = NaN \<or> b = NaN then NaN else if a \<le> b then b else a)"

definition min2 :: "jsnum \<Rightarrow> jsnum \<Rightarrow> jsnum" where
  "min2 a b = (if a = NaN \<or> b = NaN then NaN else if a \<le> b then a else b)"

definition Math_max :: "jsnum list \<Rightarrow> jsnum" where
  "Math_max xs = foldl max2 NInf xs"

definition Math_min :: "jsnum list \<Rightarrow> jsnum" where
  "Math_min xs = foldl min2 PInf xs"

text \<open>The remainder operator \<open>%\<close>: the result takes the sign of the dividend.\<close>

fun js_mod :: "jsnum \<Rightarrow> jsnum \<Rightarrow> jsnum" where
  "js_mod (Fin a) (Fin b) =
     (if b = 0 then NaN
      else Fin (a - b * of_int (if 0 \<le> a / b then \<lfloor>a / b\<rfloor> else \<lceil>a / b\<rceil>)))"
| "js_mod NaN _ = NaN"
| "js_mod _ NaN = NaN"
| "js_mod (Fin a) _ = Fin a"
| "js_mod _ _ = NaN"

text \<open>\<open>x || 0\<close> on a number: zero and NaN are falsy.\<close>

definition or_zero :: "jsnum \<Rightarrow> jsnum" where
  "or_zero x = (if x = NaN \<or> x = Fin 0 then Fin 0 else x)"

section \<open>Pallet stacking solver\<close>

record dims =
  L :: jsnum
  W :: jsnum
  H :: jsnum

text \<open>
  A layer plan. The field \<open>exceedsOverhang\<close> is present only in the degraded result;
  \<open>None\<close> is the absent field.
\<close>

record layer =
  wide :: jsnum
  long :: jsnum
  overhangW :: jsnum
  overhangL :: jsnum
  exceedsOverhang :: "bool option"

text \<open>
  The two orientations tried by \<open>calculateColumnPattern\<close>: its objects \<open>option1\<close>
  (the case as it is) and \<open>option2\<close> (the case turned by 90 degrees), the tests
  \<open>option1Valid\<close> and \<open>option2Valid\<close>, and the counts \<open>option1Count\<close> and
  \<open>option2Count\<close>.
\<close>

definition option1 :: "'a dims_scheme \<Rightarrow> 'b dims_scheme \<Rightarrow> layer" where
  "option1 caseDims palletDims =
     \<lparr> wide = Math_floor (W palletDims / W caseDims),
       long = Math_floor (L palletDims / L caseDims),
       overhangW = W palletDims - Math_floor (W palletDims / W caseDims) * W caseDims,
       overhangL = L palletDims - Math_floor (L palletDims / L caseDims) * L caseDims,
       exceedsOverhang = None \<rparr>"

definition option2 :: "'a dims_scheme \<Rightarrow> 'b dims_scheme \<Rightarrow> layer" where
  "option2 caseDims palletDims =
     \<lparr> wide = Math_floor (W palletDims / L caseDims),
       long = Math_floor (L palletDims / W caseDims),
       overhangW = W palletDims - Math_floor (W palletDims / L caseDims) * L caseDims,
       overhangL = L palletDims - Math_floor (L palletDims / W caseDims) * W caseDims,
       exceedsOverhang = None \<rparr>"

definition optionValid :: "layer \<Rightarrow> jsnum \<Rightarrow> bool" where
  "optionValid opt maxOverhang \<longleftrightarrow>
     overhangW opt \<le> maxOverhang \<and> overhangL opt \<le> maxOverhang"

definition optionCount :: "layer \<Rightarrow> jsnum" where
  "optionCount opt = wide opt * long opt"

definition calculateColumnPattern :: "'a dims_scheme \<Rightarrow> 'b dims_scheme \<Rightarrow> jsnum \<Rightarrow> layer" where
  "calculateColumnPattern caseDims palletDims maxOverhang =
     (let o1 = option1 caseDims palletDims;
          o2 = option2 caseDims palletDims;
          option1Valid = optionValid o1 maxOverhang;
          option2Valid = optionValid o2 maxOverhang;
          option1Count = optionCount o1;
          option2Count = optionCount o2
      in if option1Valid \<and> option2Valid then
           (if option2Count \<le> option1Count then o1 else o2)
         else if option1Valid then o1
         else if option2Valid then o2
         else (if option2Count \<le> option1Count
               then o1\<lparr>exceedsOverhang := Some True\<rparr>
               else o2\<lparr>exceedsOverhang := Some True\<rparr>))"

definition calculateBrickPattern :: "'a dims_scheme \<Rightarrow> 'b dims_scheme \<Rightarrow> jsnum \<Rightarrow> layer" where
  "calculateBrickPattern caseDims palletDims maxOverhang =
     calculateColumnPattern caseDims palletDims maxOverhang"

definition calculatePinwheelPattern :: "'a dims_scheme \<Rightarrow> 'b dims_scheme \<Rightarrow> jsnum \<Rightarrow> layer" where
  "calculatePinwheelPattern caseDims palletDims maxOverhang =
     calculateColumnPattern caseDims palletDims maxOverhang"

definition calculateSwap4048Pattern :: "'a dims_scheme \<Rightarrow> 'b dims_scheme \<Rightarrow> jsnum \<Rightarrow> layer" where
  "calculateSwap4048Pattern caseDims palletDims maxOverhang =
     calculateColumnPattern caseDims palletDims maxOverhang"

record squish =
  x :: jsnum
  y :: jsnum
  z :: jsnum

record solver_config =
  squish_pct :: squish
  prefer_multiples_of :: jsnum
  max_overhang_in :: jsnum
  allow_patterns :: "string list option"

record masterpack_config =
  external :: dims
  wall_thickness_in :: jsnum
  tare_lb :: jsnum

record config =
  masterpack :: masterpack_config
  solver :: solver_config
  pallet :: dims

text \<open>
  The result of \<open>calculatePalletStacking\<close>. Its fields \<open>overhangW\<close>, \<open>overhangL\<close>
  and \<open>exceedsOverhang\<close> carry the prefix \<open>st_\<close> here, apart from the fields of the
  layer plan. The \<open>switch\<close> on the pattern name sends every other name to the column
  pattern.
\<close>

record stacking =
  pattern :: string
  casesWide :: jsnum
  casesLong :: jsnum
  casesPerLayer :: jsnum
  maxLayers :: jsnum
  totalCases :: jsnum
  palletHeight :: jsnum
  coverage :: jsnum
  st_overhangW :: jsnum
  st_overhangL :: jsnum
  st_exceedsOverhang :: bool

definition calculatePalletStacking :: "'a dims_scheme \<Rightarrow> config \<Rightarrow> jsnum \<Rightarrow> string \<Rightarrow> stacking" where
  "calculatePalletStacking caseDims palletConfig targetHeight pat =
     (let maxOverhang = max_overhang_in (solver palletConfig);
          pal = pallet palletConfig;
          layerResult =
            (if pat = ''brick'' then calculateBrickPattern caseDims pal maxOverhang
             else if pat = ''pinwheel'' then calculatePinwheelPattern caseDims pal maxOverhang
             else if pat = ''swap-40-48'' then calculateSwap4048Pattern caseDims pal maxOverhang
             else calculateColumnPattern caseDims pal maxOverhang);
          cpl = wide layerResult * long layerResult;
          availableHeight = targetHeight - H pal;
          ml = Math_floor (availableHeight / H caseDims);
          tc = cpl * ml;
          actualPalletHeight = H pal + (ml * H caseDims);
          palletArea = L pal * W pal;
          usedArea = (wide layerResult * W caseDims) * (long layerResult * L caseDims)
      in \<lparr> pattern = pat,
           casesWide = wide layerResult,
           casesLong = long layerResult,
           casesPerLayer = cpl,
           maxLayers = ml,
           totalCases = tc,
           palletHeight = actualPalletHeight,
           coverage = usedArea / palletArea,
           st_overhangW = or_zero (overhangW layerResult),
           st_overhangL = or_zero (overhangL layerResult),
           st_exceedsOverhang = (case exceedsOverhang layerResult of None \<Rightarrow> False | Some b \<Rightarrow> b) \<rparr>)"

section \<open>Multi-SKU optimizer: the pallet interlocking check\<close>

record palletFit =
  canInterlock :: bool
  layer1Count :: jsnum
  layer2Count :: jsnum
  avgCoverage :: jsnum
  layer1Coverage :: jsnum
  layer2Coverage :: jsnum

definition checkPalletFit :: "'a dims_scheme \<Rightarrow> 'b dims_scheme \<Rightarrow> palletFit" where
  "checkPalletFit boxDims palletDims =
     (let boxL = L boxDims; boxW = W boxDims;
          palletL = L palletDims; palletW = W palletDims;
          layer1Wide = Math_floor (palletW / boxW);
          layer1Long = Math_floor (palletL / boxL);
          l1Count = layer1Wide * layer1Long;
          layer2Wide = Math_floor (palletW / boxL);
          layer2Long = Math_floor (palletL / boxW);
          l2Count = layer2Wide * layer2Long;
          l1Coverage = (layer1Wide * boxW * layer1Long * boxL) / (palletL * palletW);
          l2Coverage = (layer2Wide * boxL * layer2Long * boxW) / (palletL * palletW);
          avgCov = (l1Coverage + l2Coverage) / Fin 2
      in \<lparr> canInterlock = (0 < l1Count \<and> 0 < l2Count),
           layer1Count = l1Count,
           layer2Count = l2Count,
           avgCoverage = avgCov,
           layer1Coverage = l1Coverage,
           layer2Coverage = l2Coverage \<rparr>)"

section \<open>Inner pack solver\<close>

text \<open>
  The fields of a SKU that the solvers read: the unit dimensions, the name, the weight in
  ounces and the baseline count, which may be missing.
\<close>

record sku = dims +
  sku :: string
  oz :: jsnum
  current_baseline :: "jsnum option"

definition calculateInternalDims :: "'a dims_scheme \<Rightarrow> jsnum \<Rightarrow> dims" where
  "calculateInternalDims externalDims wallThickness =
     \<lparr> L = L externalDims - (Fin 2 * wallThickness),
       W = W externalDims - (Fin 2 * wallThickness),
       H = H externalDims - (Fin 2 * wallThickness) \<rparr>"

text \<open>
  Property access \<open>d[k]\<close> by axis name. A key that names no axis reads \<open>undefined\<close>,
  which is NaN in the arithmetic that follows; the solver only uses the three axis names.
\<close>

definition dim_at :: "'a dims_scheme \<Rightarrow> string \<Rightarrow> jsnum" where
  "dim_at d k = (if k = ''L'' then L d else if k = ''W'' then W d
               else if k = ''H'' then H d else NaN)"

record arrangement =
  rotation :: string
  nx :: jsnum
  ny :: jsnum
  nz :: jsnum
  count :: jsnum
  utilization :: jsnum
  rotatedDims :: dims
  adjustedDims :: dims

definition tryRotation :: "dims \<Rightarrow> dims \<Rightarrow> string \<Rightarrow> squish \<Rightarrow> arrangement" where
  "tryRotation unitDims internalDims rot squishPct =
     (let rotated = \<lparr> L = dim_at unitDims [rot ! 0],
                      W = dim_at unitDims [rot ! 1],
                      H = dim_at unitDims [rot ! 2] \<rparr>;
          adjusted = \<lparr> L = L rotated * (Fin 1 - x squishPct),
                       W = W rotated * (Fin 1 - y squishPct),
                       H = H rotated * (Fin 1 - z squishPct) \<rparr>;
          cx = Math_floor (L internalDims / L adjusted);
          cy = Math_floor (W internalDims / W adjusted);
          cz = Math_floor (H internalDims / H adjusted);
          cnt = cx * cy * cz;
          usedVolume = cnt * (L adjusted * W adjusted * H adjusted);
          availableVolume = L internalDims * W internalDims * H internalDims
      in \<lparr> rotation = rot, nx = cx, ny = cy, nz = cz, count = cnt,
           utilization = usedVolume / availableVolume,
           rotatedDims = rotated, adjustedDims = adjusted \<rparr>)"

definition scoreArrangement :: "arrangement \<Rightarrow> jsnum \<Rightarrow> jsnum" where
  "scoreArrangement arr preferMultiplesOf =
     (let isPreferredMultiple = (js_mod (count arr) preferMultiplesOf = Fin 0);
          distanceToMultiple = js_mod (count arr) preferMultiplesOf;
          s0 = Fin 0;
          s1 = (if isPreferredMultiple then s0 + Fin 1000
                else s0 + (preferMultiplesOf - distanceToMultiple) * Fin 10);
          s2 = s1 + utilization arr * Fin 500;
          s3 = s2 - nz arr * Fin (1 / 10)
      in s3)"

record scored_arrangement = arrangement +
  score :: jsnum

record fit = scored_arrangement +
  unitWeightLb :: jsnum
  totalProductWeight :: jsnum
  grossCaseWeight :: jsnum
  isLowDensity :: bool
  isHeavy :: bool
  internalDims :: dims

datatype arrangement_result = NoFit string "string list" | Fits fit

fun fits :: "arrangement_result \<Rightarrow> bool" where
  "fits (NoFit _ _) = False"
| "fits (Fits _) = True"

text \<open>
  \<open>Array.prototype.sort\<close> with a comparator: a stable sort, in which \<open>v\<close> goes after
  \<open>w\<close> when \<open>cmp v w\<close> is positive (a NaN from the comparator counts as zero). It is
  written as an insertion sort; JavaScript leaves the order open only when the comparator
  is inconsistent.
\<close>

fun insert_by :: "('a \<Rightarrow> 'a \<Rightarrow> jsnum) \<Rightarrow> 'a \<Rightarrow> 'a list \<Rightarrow> 'a list" where
  "insert_by cmp v [] = [v]"
| "insert_by cmp v (w # ws) = (if 0 < cmp v w then w # insert_by cmp v ws else v # w # ws)"

definition js_sort :: "('a \<Rightarrow> 'a \<Rightarrow> jsnum) \<Rightarrow> 'a list \<Rightarrow> 'a list" where
  "js_sort cmp vs = foldr (insert_by cmp) vs []"

definition findFailingAxis :: "dims \<Rightarrow> dims \<Rightarrow> string list" where
  "findFailingAxis unitDims internalDms =
     (let axes = [''L'', ''W'', ''H''];
          failing = filter (\<lambda>axis.
                      let minUnitDim = Math_min [L unitDims, W unitDims, H unitDims]
                      in dim_at internalDms axis < minUnitDim) axes
      in if 0 < length failing then failing else [''all''])"

definition rotations :: "string list" where
  "rotations = [''LWH'', ''LHW'', ''WLH'', ''WHL'', ''HLW'', ''HWL'']"

text \<open>
  The local constants \<open>unitDims\<close>, \<open>internalDims\<close> and \<open>arrangements\<close> of
  \<open>findBestArrangement\<close>, as functions of its arguments.
\<close>

definition unitDimsOf :: "sku \<Rightarrow> dims" where
  "unitDimsOf s = \<lparr> L = L s, W = W s, H = H s \<rparr>"

definition internalDimsOf :: "config \<Rightarrow> dims" where
  "internalDimsOf cfg =
     calculateInternalDims (external (masterpack cfg)) (wall_thickness_in (masterpack cfg))"

definition arrangementsOf :: "sku \<Rightarrow> config \<Rightarrow> arrangement list" where
  "arrangementsOf s cfg =
     map (\<lambda>rot. tryRotation (unitDimsOf s) (internalDimsOf cfg) rot (squish_pct (solver cfg)))
       rotations"

text \<open>
  \<open>best\<close> is the head of the sorted list, which has as many elements as
  \<open>validArrangements\<close> and is read only when that list is not empty.
\<close>

definition findBestArrangement :: "sku \<Rightarrow> config \<Rightarrow> arrangement_result" where
  "findBestArrangement s cfg =
     (let mp = masterpack cfg;
          internalDms = internalDimsOf cfg;
          unitDims = unitDimsOf s;
          arrangements = arrangementsOf s cfg;
          validArrangements = filter (\<lambda>a. 0 < count a) arrangements
      in if length validArrangements = 0 then
           NoFit ''SKU dimensions too large for masterpack'' (findFailingAxis unitDims internalDms)
         else
           (let scoredArrangements =
                  map (\<lambda>arr. arrangement.extend arr
                         (scored_arrangement.fields
                            (scoreArrangement arr (prefer_multiples_of (solver cfg)))))
                    validArrangements;
                sorted = js_sort (\<lambda>a b. score b - score a) scoredArrangements;
                best = hd sorted;
                uw = oz s / Fin 16;
                tpw = count best * uw;
                gcw = tpw + tare_lb mp
            in Fits (scored_arrangement.extend best
                 (fit.fields uw tpw gcw (count best < Fin 20) (Fin 40 < gcw) internalDms))))"

subsection \<open>The per-orientation count of the masterpack optimizer\<close>

record units =
  u_nx :: jsnum
  u_ny :: jsnum
  u_nz :: jsnum
  u_count :: jsnum
  u_utilization :: jsnum

text \<open>The parameter \<open>squishPct\<close> defaults to no compression when it is not passed.\<close>

definition calculateUnitsPerOrientation :: "dims \<Rightarrow> dims \<Rightarrow> squish option \<Rightarrow> units" where
  "calculateUnitsPerOrientation unitDims internalDms squishOpt =
     (let squishPct = (case squishOpt of None \<Rightarrow> \<lparr> x = Fin 0, y = Fin 0, z = Fin 0 \<rparr>
                                       | Some q \<Rightarrow> q);
          adjustedUnitDims = \<lparr> L = L unitDims * (Fin 1 - x squishPct),
                               W = W unitDims * (Fin 1 - y squishPct),
                               H = H unitDims * (Fin 1 - z squishPct) \<rparr>;
          cx = Math_floor (L internalDms / L adjustedUnitDims);
          cy = Math_floor (W internalDms / W adjustedUnitDims);
          cz = Math_floor (H internalDms / H adjustedUnitDims)
      in if cx \<le> 0 \<or> cy \<le> 0 \<or> cz \<le> 0 then
           \<lparr> u_nx = Fin 0, u_ny = Fin 0, u_nz = Fin 0, u_count = Fin 0, u_utilization = Fin 0 \<rparr>
         else
           \<lparr> u_nx = cx, u_ny = cy, u_nz = cz, u_count = cx * cy * cz,
             u_utilization =
               (cx * L adjustedUnitDims * cy * W adjustedUnitDims * cz * H adjustedUnitDims)
               / (L internalDms * W internalDms * H internalDms) \<rparr>)"

section \<open>Multi-SKU optimizer: the search for one masterpack size\<close>

subsection \<open>Candidate dimensions\<close>

text \<open>The test \<open>maxRatio <= 2.0\<close> on the six ratios of a candidate.\<close>

definition reasonableRatio :: "jsnum \<Rightarrow> jsnum \<Rightarrow> jsnum \<Rightarrow> bool" where
  "reasonableRatio l w h =
     (let maxRatio = Math_max [l / w, w / l, l / h, h / l, w / h, h / w]
      in maxRatio \<le> Fin 2)"

text \<open>
  The three nested \<open>for\<close> loops. A loop whose counter never passes \<open>maxDim\<close> (a step
  that is zero, negative or NaN below a reachable bound) does not return: the value is
  \<open>None\<close>. The counters are exact sums here; they are the sums of the program when
  the bounds and the step are integers below \<open>2^53\<close>.
\<close>

partial_function (option) loopH ::
  "jsnum \<Rightarrow> jsnum \<Rightarrow> jsnum \<Rightarrow> jsnum \<Rightarrow> jsnum \<Rightarrow> dims list \<Rightarrow> dims list option" where
  "loopH l w h maxDim step candidates =
     (if h \<le> maxDim then
        loopH l w (h + step) maxDim step
          (if reasonableRatio l w h then candidates @ [\<lparr> L = l, W = w, H = h \<rparr>]
           else candidates)
      else Some candidates)"

partial_function (option) loopW ::
  "jsnum \<Rightarrow> jsnum \<Rightarrow> jsnum \<Rightarrow> jsnum \<Rightarrow> jsnum \<Rightarrow> dims list \<Rightarrow> dims list option" where
  "loopW l w minDim maxDim step candidates =
     (if w \<le> maxDim then
        Option.bind (loopH l w minDim maxDim step candidates)
          (\<lambda>candidates'. loopW l (w + step) minDim maxDim step candidates')
      else Some candidates)"

partial_function (option) loopL ::
  "jsnum \<Rightarrow> jsnum \<Rightarrow> jsnum \<Rightarrow> jsnum \<Rightarrow> dims list \<Rightarrow> dims list option" where
  "loopL l minDim maxDim step candidates =
     (if l \<le> maxDim then
        Option.bind (loopW l minDim minDim maxDim step candidates)
          (\<lambda>candidates'. loopL (l + step) minDim maxDim step candidates')
      else Some candidates)"

declare loopH.simps [code] loopW.simps [code] loopL.simps [code]

definition generateCandidateDimensions :: "jsnum \<Rightarrow> jsnum \<Rightarrow> jsnum \<Rightarrow> dims list option" where
  "generateCandidateDimensions minDim maxDim step = loopL minDim minDim maxDim step []"

subsection \<open>Scoring a candidate\<close>

text \<open>
  The per-SKU entry of \<open>skuResults\<close>; its fields \<open>sku\<close>, \<open>fits\<close>, \<open>count\<close> and
  \<open>utilization\<close> carry the prefix \<open>r_\<close> here, apart from those of the arrangement.
  In the record of the scored candidate, \<open>score\<close> and \<open>palletFit\<close> carry the prefix
  \<open>b_\<close>.
\<close>

record sku_result =
  r_sku :: string
  r_fits :: bool
  r_count :: jsnum
  r_utilization :: jsnum
  currentBaseline :: jsnum

record box_scored =
  b_score :: jsnum
  allFit :: bool
  avgUtilization :: jsnum
  totalVolume :: jsnum
  avgBaselineRatio :: jsnum
  b_palletFit :: palletFit
  skuResults :: "sku_result list"

text \<open>
  The two shapes of the result: the early return \<open>{ score: -1000, ...skuResults }\<close>,
  which has a score and the per-SKU results but no \<open>allFit\<close> field, and the full record.
\<close>

datatype box_score = Rejected jsnum "sku_result list" | Scored box_scored

fun score_of :: "box_score \<Rightarrow> jsnum" where
  "score_of (Rejected sc _) = sc"
| "score_of (Scored b) = b_score b"

fun allFit_of :: "box_score \<Rightarrow> bool option" where
  "allFit_of (Rejected _ _) = None"
| "allFit_of (Scored b) = Some (allFit b)"

text \<open>
  The parts of \<open>scoreBoxCandidate\<close>: the configuration \<open>testConfig\<close> with the candidate
  as the external dimensions, the entry of \<open>skuResults\<close> for one SKU, and one element of
  \<open>baselineComparison\<close>.
\<close>

definition testConfig :: "config \<Rightarrow> dims \<Rightarrow> config" where
  "testConfig cfg boxDims = cfg\<lparr> masterpack := (masterpack cfg)\<lparr> external := boxDims \<rparr> \<rparr>"

definition skuResult :: "sku \<Rightarrow> config \<Rightarrow> sku_result" where
  "skuResult s tcfg =
     (let result = findBestArrangement s tcfg
      in \<lparr> r_sku = sku s,
           r_fits = fits result,
           r_count = (case result of Fits b \<Rightarrow> count b | NoFit _ _ \<Rightarrow> Fin 0),
           r_utilization = (case result of Fits b \<Rightarrow> utilization b | NoFit _ _ \<Rightarrow> Fin 0),
           currentBaseline = (case current_baseline s of None \<Rightarrow> Fin 0 | Some v \<Rightarrow> or_zero v) \<rparr>)"

definition baselineRatio :: "sku_result \<Rightarrow> jsnum" where
  "baselineRatio r = (if 0 < currentBaseline r then r_count r / currentBaseline r else Fin 1)"

definition scoreBoxCandidate :: "dims \<Rightarrow> sku list \<Rightarrow> config \<Rightarrow> palletFit \<Rightarrow> box_score" where
  "scoreBoxCandidate boxDims skus cfg pf =
     (let results = map (\<lambda>s. skuResult s (testConfig cfg boxDims)) skus;
          allFt = list_all r_fits results;
          avgUtil = foldl (\<lambda>sum r. sum + r_utilization r) (Fin 0) results
                      / Fin (real (length results));
          totalVol = L boxDims * W boxDims * H boxDims;
          baselineComparison = map baselineRatio results;
          avgBaseline = foldl (\<lambda>sum r. sum + r) (Fin 0) baselineComparison
                          / Fin (real (length baselineComparison));
          s0 = Fin 0
      in if \<not> allFt then Rejected (Fin (- 1000)) results
         else
           (let s1 = s0 + avgUtil * Fin 500;
                s2 = s1 - totalVol * Fin (1 / 10);
                s3 = s2 + avgBaseline * Fin 300;
                s4 = (if canInterlock pf then (s3 + Fin 200) + avgCoverage pf * Fin 300 else s3)
            in Scored \<lparr> b_score = s4, allFit = allFt, avgUtilization = avgUtil,
                        totalVolume = totalVol, avgBaselineRatio = avgBaseline,
                        b_palletFit = pf, skuResults = results \<rparr>))"

subsection \<open>The search\<close>

record options =
  minDim :: "jsnum option"
  maxDim :: "jsnum option"
  step :: "jsnum option"

record candidate =
  c_dims :: dims
  c_result :: box_score

record search_result =
  optimal :: "candidate option"
  topCandidates :: "candidate list"
  totalTested :: nat
  validCandidates :: nat

text \<open>The destructuring of \<open>options\<close> with its defaults.\<close>

definition optMinDim :: "options \<Rightarrow> jsnum" where
  "optMinDim opts = (case minDim opts of None \<Rightarrow> Fin 12 | Some v \<Rightarrow> v)"

definition optMaxDim :: "options \<Rightarrow> jsnum" where
  "optMaxDim opts = (case maxDim opts of None \<Rightarrow> Fin 24 | Some v \<Rightarrow> v)"

definition optStep :: "options \<Rightarrow> jsnum" where
  "optStep opts = (case step opts of None \<Rightarrow> Fin 1 | Some v \<Rightarrow> v)"

text \<open>The function mapped over the candidates: \<open>{ dims, ...score }\<close>.\<close>

definition scoreCandidate :: "sku list \<Rightarrow> config \<Rightarrow> dims \<Rightarrow> candidate" where
  "scoreCandidate skus cfg d =
     (let pf = checkPalletFit d (pallet cfg);
          sc = scoreBoxCandidate d skus cfg pf
      in \<lparr> c_dims = d, c_result = sc \<rparr>)"

text \<open>
  The candidates that are kept, in the order of the result: scored, filtered by a
  positive score and sorted by decreasing score.
\<close>

definition scoredCandidates :: "sku list \<Rightarrow> config \<Rightarrow> dims list \<Rightarrow> candidate list" where
  "scoredCandidates skus cfg candidates =
     js_sort (\<lambda>a b. score_of (c_result b) - score_of (c_result a))
       (filter (\<lambda>c. 0 < score_of (c_result c)) (map (scoreCandidate skus cfg) candidates))"

text \<open>
  The options default to 12, 24 and 1 when they are not given. The result is
  \<open>None\<close> when the candidate generation does not return. The two
  \<open>console.log\<close> calls are left out. \<open>optimal\<close> is the first element of the sorted
  list, \<open>undefined\<close> (here \<open>None\<close>) when the list is empty.
\<close>

definition findOptimalMasterpack :: "sku list \<Rightarrow> config \<Rightarrow> options \<Rightarrow> search_result option" where
  "findOptimalMasterpack skus cfg opts =
     (case generateCandidateDimensions (optMinDim opts) (optMaxDim opts) (optStep opts) of
           None \<Rightarrow> None
         | Some candidates \<Rightarrow>
             (let sorted = scoredCandidates skus cfg candidates
              in Some \<lparr> optimal = (case sorted of [] \<Rightarrow> None | c # _ \<Rightarrow> Some c),
                        topCandidates = take 5 sorted,
                        totalTested = length candidates,
                        validCandidates = length sorted \<rparr>))"

section \<open>Inputs of the scenarios\<close>

text \<open>
  A 6 by 4 by 3 unit with no recorded baseline, and a configuration with a 24 by 16 by 12
  masterpack without walls, no compression and a 48 by 40 pallet.
\<close>

definition cfgA :: config where
  "cfgA = \<lparr> masterpack = \<lparr> external = \<lparr>L = Fin 24, W = Fin 16, H = Fin 12\<rparr>,
                wall_thickness_in = Fin 0, tare_lb = Fin 2 \<rparr>,
             solver = \<lparr> squish_pct = \<lparr>x = Fin 0, y = Fin 0, z = Fin 0\<rparr>,
                prefer_multiples_of = Fin 24, max_overhang_in = Fin 0, allow_patterns = None \<rparr>,
             pallet = \<lparr>L = Fin 48, W = Fin 40, H = Fin 6\<rparr> \<rparr>"

definition skuA :: sku where
  "skuA = \<lparr> L = Fin 6, W = Fin 4, H = Fin 3, sku = ''A'', oz = Fin 8, current_baseline = None \<rparr>"

text \<open>A 20 by 20 by 20 unit and a masterpack whose internal dimensions are 18 by 18 by 18.\<close>

definition cfgB :: config where
  "cfgB = \<lparr> masterpack = \<lparr> external = \<lparr>L = Fin 20, W = Fin 20, H = Fin 20\<rparr>,
                wall_thickness_in = Fin 1, tare_lb = Fin 2 \<rparr>,
             solver = \<lparr> squish_pct = \<lparr>x = Fin 0, y = Fin 0, z = Fin 0\<rparr>,
                prefer_multiples_of = Fin 6, max_overhang_in = Fin 0, allow_patterns = None \<rparr>,
             pallet = \<lparr>L = Fin 48, W = Fin 40, H = Fin 6\<rparr> \<rparr>"

definition skuB :: sku where
  "skuB = \<lparr> L = Fin 20, W = Fin 20, H = Fin 20, sku = ''B'', oz = Fin 8, current_baseline = None \<rparr>"

text \<open>A unit with two negative extents and a 10 by 10 by 10 masterpack without walls.\<close>

definition cfgC :: config where
  "cfgC = \<lparr> masterpack = \<lparr> external = \<lparr>L = Fin 10, W = Fin 10, H = Fin 10\<rparr>,
                wall_thickness_in = Fin 0, tare_lb = Fin 2 \<rparr>,
             solver = \<lparr> squish_pct = \<lparr>x = Fin 0, y = Fin 0, z = Fin 0\<rparr>,
                prefer_multiples_of = Fin 6, max_overhang_in = Fin 0, allow_patterns = None \<rparr>,
             pallet = \<lparr>L = Fin 48, W = Fin 40, H = Fin 6\<rparr> \<rparr>"

definition skuC :: sku where
  "skuC = \<lparr> L = Fin (- 1), W = Fin (- 1), H = Fin 1, sku = ''C'', oz = Fin 8,
             current_baseline = None \<rparr>"


definition skuU :: sku where
  "skuU = \<lparr> L = Fin 1, W = Fin 1, H = Fin 1, sku = ''U'', oz = Fin 8, current_baseline = None \<rparr>"

text \<open>
  A 10 by 10 by 10 masterpack with walls of 6, whose internal dimensions are all -2, and
  a 10 by 10 by 20 masterpack with walls of 6, whose internal dimensions are -2, -2 and 8.
\<close>

definition cfgD :: config where
  "cfgD = \<lparr> masterpack = \<lparr> external = \<lparr>L = Fin 10, W = Fin 10, H = Fin 10\<rparr>,
                wall_thickness_in = Fin 6, tare_lb = Fin 2 \<rparr>,
             solver = \<lparr> squish_pct = \<lparr>x = Fin 0, y = Fin 0, z = Fin 0\<rparr>,
                prefer_multiples_of = Fin 6, max_overhang_in = Fin 0, allow_patterns = None \<rparr>,
             pallet = \<lparr>L = Fin 48, W = Fin 40, H = Fin 6\<rparr> \<rparr>"

definition cfgE :: config where
  "cfgE = \<lparr> masterpack = \<lparr> external = \<lparr>L = Fin 10, W = Fin 10, H = Fin 20\<rparr>,
                wall_thickness_in = Fin 6, tare_lb = Fin 2 \<rparr>,
             solver = \<lparr> squish_pct = \<lparr>x = Fin 0, y = Fin 0, z = Fin 0\<rparr>,
                prefer_multiples_of = Fin 6, max_overhang_in = Fin 0, allow_patterns = None \<rparr>,
             pallet = \<lparr>L = Fin 48, W = Fin 40, H = Fin 6\<rparr> \<rparr>"

text \<open>
  A 10 by 10 by 10 masterpack without walls and a compression of 1.75 on the first two
  axes.
\<close>

definition cfgS :: config where
  "cfgS = \<lparr> masterpack = \<lparr> external = \<lparr>L = Fin 10, W = Fin 10, H = Fin 10\<rparr>,
                wall_thickness_in = Fin 0, tare_lb = Fin 2 \<rparr>,
             solver = \<lparr> squish_pct = \<lparr>x = Fin (7 / 4), y = Fin (7 / 4), z = Fin 0\<rparr>,
                prefer_multiples_of = Fin 6, max_overhang_in = Fin 0, allow_patterns = None \<rparr>,
             pallet = \<lparr>L = Fin 48, W = Fin 40, H = Fin 6\<rparr> \<rparr>"

section \<open>Facts about the numbers\<close>

lemma minus_Fin [simp]: "Fin a - Fin b = Fin (a - b)"
  by (simp add: minus_jsnum_def)

lemma zero_less_Fin [simp]: "(0 < Fin a) = (0 < a)"
  by (simp add: zero_jsnum_def)

lemma Fin_le_zero [simp]: "(Fin a \<le> 0) = (a \<le> 0)"
  by (simp add: zero_jsnum_def)

lemma jsnum_le_trans: "(a::jsnum) \<le> b \<Longrightarrow> b \<le> c \<Longrightarrow> a \<le> c"
  by (cases a; cases b; cases c) simp_all

lemma jsnum_le_not_less: "(b::jsnum) \<le> a \<Longrightarrow> \<not> a < b"
  by (cases a; cases b) auto

lemma jsnum_not_le_not_less: "\<not> (b::jsnum) \<le> a \<Longrightarrow> \<not> b < a"
  by (cases a; cases b) auto

lemma jsnum_less_irrefl: "\<not> (a::jsnum) < a"
  by (cases a) auto



section \<open>The layer plan\<close>

lemma optionValid_mono: "optionValid opt m1 \<Longrightarrow> m1 \<le> m2 \<Longrightarrow> optionValid opt m2"
  unfolding optionValid_def by (blast intro: jsnum_le_trans)

lemma optionValid_exceeds [simp]:
  "optionValid (opt\<lparr>exceedsOverhang := e\<rparr>) m = optionValid opt m"
  by (simp add: optionValid_def)

lemma optionCount_exceeds [simp]:
  "optionCount (opt\<lparr>exceedsOverhang := e\<rparr>) = optionCount opt"
  by (simp add: optionCount_def)

lemma exceeds_option1 [simp]: "exceedsOverhang (option1 c p) = None"
  by (simp add: option1_def)

lemma exceeds_option2 [simp]: "exceedsOverhang (option2 c p) = None"
  by (simp add: option2_def)

lemma option_counts_Fin:
  assumes "L c = Fin cl" "W c = Fin cw" "L p = Fin pl" "W p = Fin pw" "cl \<noteq> 0" "cw \<noteq> 0"
  shows "optionCount (option1 c p) = Fin (of_int (\<lfloor>pw / cw\<rfloor> * \<lfloor>pl / cl\<rfloor>))"
    and "optionCount (option2 c p) = Fin (of_int (\<lfloor>pw / cl\<rfloor> * \<lfloor>pl / cw\<rfloor>))"
  using assms by (simp_all add: optionCount_def option1_def option2_def)

lemma option1_eval:
  "option1 \<lparr>L = Fin 20, W = Fin 15, H = Fin 14\<rparr> \<lparr>L = Fin 48, W = Fin 40, H = Fin 6\<rparr>
     = \<lparr>wide = Fin 2, long = Fin 2, overhangW = Fin 10, overhangL = Fin 8,
         exceedsOverhang = None\<rparr>"
  by (simp add: option1_def)

lemma option2_eval:
  "option2 \<lparr>L = Fin 20, W = Fin 15, H = Fin 14\<rparr> \<lparr>L = Fin 48, W = Fin 40, H = Fin 6\<rparr>
     = \<lparr>wide = Fin 2, long = Fin 3, overhangW = Fin 0, overhangL = Fin 3,
         exceedsOverhang = None\<rparr>"
  by (simp add: option2_def)

text \<open>
  Claim C8. Whatever the case, the pallet and the overhang limit, \<open>calculateColumnPattern\<close>
  returns a layer plan. When at least one of the two orientations has both overhangs
  within the limit, the plan is a valid orientation, it carries no \<open>exceedsOverhang\<close>
  flag, and no valid orientation has a greater count. When neither is valid, the plan is
  one of the two orientations with \<open>exceedsOverhang = true\<close>, and neither orientation
  has a greater count.
\<close>

theorem columnPattern_selection:
  "(optionValid (option1 c p) m \<or> optionValid (option2 c p) m \<longrightarrow>
      (calculateColumnPattern c p m = option1 c p \<or> calculateColumnPattern c p m = option2 c p)
      \<and> optionValid (calculateColumnPattern c p m) m
      \<and> exceedsOverhang (calculateColumnPattern c p m) = None
      \<and> (\<forall>opt \<in> {option1 c p, option2 c p}. optionValid opt m \<longrightarrow>
            \<not> optionCount (calculateColumnPattern c p m) < optionCount opt))
   \<and> (\<not> optionValid (option1 c p) m \<and> \<not> optionValid (option2 c p) m \<longrightarrow>
      (calculateColumnPattern c p m = (option1 c p)\<lparr>exceedsOverhang := Some True\<rparr>
        \<or> calculateColumnPattern c p m = (option2 c p)\<lparr>exceedsOverhang := Some True\<rparr>)
      \<and> exceedsOverhang (calculateColumnPattern c p m) = Some True
      \<and> (\<forall>opt \<in> {option1 c p, option2 c p}.
            \<not> optionCount (calculateColumnPattern c p m) < optionCount opt))"
  by (auto simp add: calculateColumnPattern_def Let_def jsnum_less_irrefl
        dest: jsnum_le_not_less jsnum_not_le_not_less)

theorem columnPattern_selection_witness:
  "optionValid (option1 \<lparr>L = Fin 20, W = Fin 15, H = Fin 14\<rparr>
       \<lparr>L = Fin 48, W = Fin 40, H = Fin 6\<rparr>) (Fin 10)
   \<and> optionValid (option2 \<lparr>L = Fin 20, W = Fin 15, H = Fin 14\<rparr>
       \<lparr>L = Fin 48, W = Fin 40, H = Fin 6\<rparr>) (Fin 10)
   \<and> \<not> optionCount (calculateColumnPattern \<lparr>L = Fin 20, W = Fin 15, H = Fin 14\<rparr>
          \<lparr>L = Fin 48, W = Fin 40, H = Fin 6\<rparr> (Fin 10)) < Fin 6
   \<and> \<not> optionValid (option1 \<lparr>L = Fin 20, W = Fin 15, H = Fin 14\<rparr>
       \<lparr>L = Fin 48, W = Fin 40, H = Fin 6\<rparr>) (Fin 0)
   \<and> \<not> optionValid (option2 \<lparr>L = Fin 20, W = Fin 15, H = Fin 14\<rparr>
       \<lparr>L = Fin 48, W = Fin 40, H = Fin 6\<rparr>) (Fin 0)
   \<and> exceedsOverhang (calculateColumnPattern \<lparr>L = Fin 20, W = Fin 15, H = Fin 14\<rparr>
          \<lparr>L = Fin 48, W = Fin 40, H = Fin 6\<rparr> (Fin 0)) = Some True"
  using columnPattern_selection [of "\<lparr>L = Fin 20, W = Fin 15, H = Fin 14\<rparr>"
          "\<lparr>L = Fin 48, W = Fin 40, H = Fin 6\<rparr>" "Fin 10"]
        columnPattern_selection [of "\<lparr>L = Fin 20, W = Fin 15, H = Fin 14\<rparr>"
          "\<lparr>L = Fin 48, W = Fin 40, H = Fin 6\<rparr>" "Fin 0"]
  by (simp add: option1_eval option2_eval optionValid_def optionCount_def)

text \<open>
  Claim C9. For the patterns \<open>brick\<close>, \<open>pinwheel\<close> and \<open>swap-40-48\<close> the result of
  \<open>calculatePalletStacking\<close> is the result for \<open>column\<close> with the pattern name replaced.
\<close>

theorem stacking_patterns_fall_back:
  "calculatePalletStacking c cfg h ''brick''
     = (calculatePalletStacking c cfg h ''column'')\<lparr>pattern := ''brick''\<rparr>
   \<and> calculatePalletStacking c cfg h ''pinwheel''
     = (calculatePalletStacking c cfg h ''column'')\<lparr>pattern := ''pinwheel''\<rparr>
   \<and> calculatePalletStacking c cfg h ''swap-40-48''
     = (calculatePalletStacking c cfg h ''column'')\<lparr>pattern := ''swap-40-48''\<rparr>"
  by (simp add: calculatePalletStacking_def calculateBrickPattern_def
        calculatePinwheelPattern_def calculateSwap4048Pattern_def Let_def)

text \<open>
  Claim C7, as the code has it. With positive extents and \<open>m1 \<le> m2\<close>, the count of the
  plan chosen at \<open>m2\<close> is at least the count chosen at \<open>m1\<close>, provided that at least one
  orientation is within the limit \<open>m1\<close>.
\<close>

theorem columnPattern_mono_valid:
  assumes "L c = Fin cl" "W c = Fin cw" "L p = Fin pl" "W p = Fin pw"
    and "0 < cl" "0 < cw" "0 < pl" "0 < pw"
    and "m1 \<le> m2"
    and "optionValid (option1 c p) m1 \<or> optionValid (option2 c p) m1"
  shows "optionCount (calculateColumnPattern c p m1)
           \<le> optionCount (calculateColumnPattern c p m2)"
proof -
  have c1: "optionCount (option1 c p) = Fin (of_int (\<lfloor>pw / cw\<rfloor> * \<lfloor>pl / cl\<rfloor>))"
    and c2: "optionCount (option2 c p) = Fin (of_int (\<lfloor>pw / cl\<rfloor> * \<lfloor>pl / cw\<rfloor>))"
    using assms by (simp_all add: option_counts_Fin)
  have v1: "optionValid (option1 c p) m1 \<Longrightarrow> optionValid (option1 c p) m2"
    and v2: "optionValid (option2 c p) m1 \<Longrightarrow> optionValid (option2 c p) m2"
    using \<open>m1 \<le> m2\<close> by (blast intro: optionValid_mono)+
  show ?thesis
    using assms(10) v1 v2
    by (auto simp add: calculateColumnPattern_def Let_def c1 c2)
qed

lemma option1_eval_5_7:
  "option1 \<lparr>L = Fin 5, W = Fin 7, H = Fin 10\<rparr> \<lparr>L = Fin 48, W = Fin 40, H = Fin 6\<rparr>
     = \<lparr>wide = Fin 5, long = Fin 9, overhangW = Fin 5, overhangL = Fin 3,
         exceedsOverhang = None\<rparr>"
  by (simp add: option1_def)

lemma option2_eval_5_7:
  "option2 \<lparr>L = Fin 5, W = Fin 7, H = Fin 10\<rparr> \<lparr>L = Fin 48, W = Fin 40, H = Fin 6\<rparr>
     = \<lparr>wide = Fin 8, long = Fin 6, overhangW = Fin 0, overhangL = Fin 6,
         exceedsOverhang = None\<rparr>"
  by (simp add: option2_def)

theorem columnPattern_mono_valid_witness:
  "(0::real) < 5 \<and> (0::real) < 7 \<and> (0::real) < 48 \<and> (0::real) < 40 \<and> Fin 5 \<le> Fin 6
   \<and> optionValid (option1 \<lparr>L = Fin 5, W = Fin 7, H = Fin 10\<rparr>
        \<lparr>L = Fin 48, W = Fin 40, H = Fin 6\<rparr>) (Fin 5)
   \<and> optionCount (calculateColumnPattern \<lparr>L = Fin 5, W = Fin 7, H = Fin 10\<rparr>
        \<lparr>L = Fin 48, W = Fin 40, H = Fin 6\<rparr> (Fin 5))
      \<le> optionCount (calculateColumnPattern \<lparr>L = Fin 5, W = Fin 7, H = Fin 10\<rparr>
        \<lparr>L = Fin 48, W = Fin 40, H = Fin 6\<rparr> (Fin 6))"
  using columnPattern_mono_valid [of "\<lparr>L = Fin 5, W = Fin 7, H = Fin 10\<rparr>" 5 7
          "\<lparr>L = Fin 48, W = Fin 40, H = Fin 6\<rparr>" 48 40 "Fin 5" "Fin 6"]
  by (simp add: option1_eval_5_7 optionValid_def)

text \<open>
  The claim C7 as the specification states it fails: for a 5 by 7 case on a 48 by 40
  pallet, the limit 0 admits neither orientation and the plan is the rotated one with 48
  cases; the limit 5 admits only the unrotated orientation, with 45 cases.
\<close>

theorem columnPattern_mono_counterexample:
  "Fin 0 \<le> Fin 5
   \<and> optionCount (calculateColumnPattern \<lparr>L = Fin 5, W = Fin 7, H = Fin 10\<rparr>
        \<lparr>L = Fin 48, W = Fin 40, H = Fin 6\<rparr> (Fin 0)) = Fin 48
   \<and> optionCount (calculateColumnPattern \<lparr>L = Fin 5, W = Fin 7, H = Fin 10\<rparr>
        \<lparr>L = Fin 48, W = Fin 40, H = Fin 6\<rparr> (Fin 5)) = Fin 45
   \<and> \<not> optionCount (calculateColumnPattern \<lparr>L = Fin 5, W = Fin 7, H = Fin 10\<rparr>
        \<lparr>L = Fin 48, W = Fin 40, H = Fin 6\<rparr> (Fin 0))
      \<le> optionCount (calculateColumnPattern \<lparr>L = Fin 5, W = Fin 7, H = Fin 10\<rparr>
        \<lparr>L = Fin 48, W = Fin 40, H = Fin 6\<rparr> (Fin 5))"
  by (simp add: calculateColumnPattern_def Let_def option1_eval_5_7 option2_eval_5_7
        optionValid_def optionCount_def)

section \<open>The interlocking check\<close>


section \<open>The inner pack solver\<close>

lemma set_insert_by [simp]: "set (insert_by cmp v ws) = insert v (set ws)"
  by (induction ws) auto

lemma set_js_sort [simp]: "set (js_sort cmp vs) = set vs"
  by (induction vs) (simp_all add: js_sort_def)

lemma length_insert_by [simp]: "length (insert_by cmp v ws) = Suc (length ws)"
  by (induction ws) auto

lemma length_js_sort [simp]: "length (js_sort cmp vs) = length vs"
  by (induction vs) (simp_all add: js_sort_def)

lemma js_sort_Nil_iff [simp]: "(js_sort cmp vs = []) = (vs = [])"
  by (metis length_js_sort length_0_conv)

lemma hd_js_sort_in: "vs \<noteq> [] \<Longrightarrow> hd (js_sort cmp vs) \<in> set vs"
  by (metis hd_in_set js_sort_Nil_iff set_js_sort)

lemma findBestArrangement_NoFit_iff:
  "(\<not> fits (findBestArrangement s cfg)) = (\<forall>a \<in> set (arrangementsOf s cfg). \<not> 0 < count a)"
  by (auto simp add: findBestArrangement_def Let_def filter_empty_conv)

lemma findBestArrangement_NoFit:
  "\<forall>a \<in> set (arrangementsOf s cfg). \<not> 0 < count a \<Longrightarrow>
   findBestArrangement s cfg
     = NoFit ''SKU dimensions too large for masterpack''
         (findFailingAxis (unitDimsOf s) (internalDimsOf cfg))"
  by (auto simp add: findBestArrangement_def Let_def filter_empty_conv)

lemma findBestArrangement_Fits:
  assumes "findBestArrangement s cfg = Fits b"
  shows "\<exists>a \<in> set (arrangementsOf s cfg). 0 < count a \<and> count b = count a
           \<and> utilization b = utilization a \<and> nx b = nx a \<and> ny b = ny a \<and> nz b = nz a
           \<and> rotation b = rotation a"
proof -
  let ?valid = "filter (\<lambda>a. 0 < count a) (arrangementsOf s cfg)"
  let ?scored = "map (\<lambda>arr. arrangement.extend arr
                         (scored_arrangement.fields
                            (scoreArrangement arr (prefer_multiples_of (solver cfg))))) ?valid"
  let ?best = "hd (js_sort (\<lambda>a b. score b - score a) ?scored)"
  from assms have ne: "?valid \<noteq> []"
    by (auto simp add: findBestArrangement_def Let_def split: if_splits)
  then have "?best \<in> set ?scored"
    by (intro hd_js_sort_in) simp
  then obtain a where a: "a \<in> set ?valid"
    and best: "?best = arrangement.extend a (scored_arrangement.fields
                            (scoreArrangement a (prefer_multiples_of (solver cfg))))"
    by auto
  from assms ne have b: "b = scored_arrangement.extend ?best
                 (fit.fields (oz s / Fin 16) (count ?best * (oz s / Fin 16))
                    (count ?best * (oz s / Fin 16) + tare_lb (masterpack cfg))
                    (count ?best < Fin 20)
                    (Fin 40 < count ?best * (oz s / Fin 16) + tare_lb (masterpack cfg))
                    (internalDimsOf cfg))"
    by (simp add: findBestArrangement_def Let_def split: if_splits)
  have "count b = count a \<and> utilization b = utilization a \<and> nx b = nx a \<and> ny b = ny a
          \<and> nz b = nz a \<and> rotation b = rotation a"
    unfolding b best
    by (simp add: arrangement.defs scored_arrangement.defs fit.defs)
  with a show ?thesis by auto
qed

lemma count_of_arrangement:
  "a \<in> set (arrangementsOf s cfg) \<Longrightarrow> count a = nx a * ny a * nz a"
  by (auto simp add: arrangementsOf_def tryRotation_def Let_def)

lemma length_arrangementsOf: "length (arrangementsOf s cfg) = 6"
  by (simp add: arrangementsOf_def rotations_def)

lemma jsnum_ge_one_pos: "Fin 1 \<le> a \<Longrightarrow> 0 < a"
  by (cases a) (simp_all add: zero_jsnum_def)

lemma jsnum_ge_one_mult: "Fin 1 \<le> a \<Longrightarrow> Fin 1 \<le> b \<Longrightarrow> Fin 1 \<le> a * b"
proof (cases a; cases b)
  fix r t
  assume "Fin 1 \<le> a" "Fin 1 \<le> b" "a = Fin r" "b = Fin t"
  then have "1 \<le> r" "1 \<le> t" by simp_all
  then have "1 * 1 \<le> r * t" by (intro mult_mono) simp_all
  with \<open>a = Fin r\<close> \<open>b = Fin t\<close> show "Fin 1 \<le> a * b" by simp
qed auto

lemma counts_ge_one_fit:
  assumes "a \<in> set (arrangementsOf s cfg)" "Fin 1 \<le> nx a" "Fin 1 \<le> ny a" "Fin 1 \<le> nz a"
  shows "0 < count a"
  unfolding count_of_arrangement [OF assms(1)]
  using assms(2-4) by (intro jsnum_ge_one_pos jsnum_ge_one_mult)

text \<open>
  On positive extents, with a compression allowance below 1, the counts are not
  negative: a positive total count is then a count of at least 1 on each axis.
\<close>

lemma int_prod3_pos:
  assumes "0 \<le> (i::int)" "0 \<le> j" "0 \<le> k"
  shows "(0 < i * j * k) = (1 \<le> i \<and> 1 \<le> j \<and> 1 \<le> k)"
  using assms by (auto simp add: zero_less_mult_iff)

lemma rotated_pos:
  assumes "L u = Fin ul" "W u = Fin uw" "H u = Fin uh" "0 < ul" "0 < uw" "0 < uh"
    and "rot \<in> set rotations"
  shows "\<exists>r1 r2 r3. 0 < r1 \<and> 0 < r2 \<and> 0 < r3 \<and> dim_at u [rot ! 0] = Fin r1
           \<and> dim_at u [rot ! 1] = Fin r2 \<and> dim_at u [rot ! 2] = Fin r3"
  using assms by (auto simp add: rotations_def dim_at_def)

lemma tryRotation_Fin:
  assumes "dim_at u [rot ! 0] = Fin r1" "dim_at u [rot ! 1] = Fin r2" "dim_at u [rot ! 2] = Fin r3"
    and "x q = Fin sx" "y q = Fin sy" "z q = Fin sz"
    and "L i = Fin il" "W i = Fin iw" "H i = Fin ih"
    and "r1 * (1 - sx) \<noteq> 0" "r2 * (1 - sy) \<noteq> 0" "r3 * (1 - sz) \<noteq> 0"
  shows "nx (tryRotation u i rot q) = Fin (of_int \<lfloor>il / (r1 * (1 - sx))\<rfloor>)"
    and "ny (tryRotation u i rot q) = Fin (of_int \<lfloor>iw / (r2 * (1 - sy))\<rfloor>)"
    and "nz (tryRotation u i rot q) = Fin (of_int \<lfloor>ih / (r3 * (1 - sz))\<rfloor>)"
    and "count (tryRotation u i rot q)
          = Fin (of_int (\<lfloor>il / (r1 * (1 - sx))\<rfloor> * \<lfloor>iw / (r2 * (1 - sy))\<rfloor> * \<lfloor>ih / (r3 * (1 - sz))\<rfloor>))"
  using assms by (simp_all add: tryRotation_def Let_def)

lemma arrangement_counts:
  assumes u: "L s = Fin ul" "W s = Fin uw" "H s = Fin uh" "0 < ul" "0 < uw" "0 < uh"
    and i: "internalDimsOf cfg = \<lparr>L = Fin il, W = Fin iw, H = Fin ih\<rparr>" "0 < il" "0 < iw" "0 < ih"
    and q: "x (squish_pct (solver cfg)) = Fin sx" "y (squish_pct (solver cfg)) = Fin sy"
      "z (squish_pct (solver cfg)) = Fin sz" "sx < 1" "sy < 1" "sz < 1"
    and a: "a \<in> set (arrangementsOf s cfg)" "0 < count a"
  shows "Fin 1 \<le> nx a \<and> Fin 1 \<le> ny a \<and> Fin 1 \<le> nz a"
proof -
  from a obtain rot where rot: "rot \<in> set rotations"
    and a_def: "a = tryRotation (unitDimsOf s) (internalDimsOf cfg) rot (squish_pct (solver cfg))"
    by (auto simp add: arrangementsOf_def)
  have "L (unitDimsOf s) = Fin ul" "W (unitDimsOf s) = Fin uw" "H (unitDimsOf s) = Fin uh"
    using u by (simp_all add: unitDimsOf_def)
  from rotated_pos [OF this u(4-6) rot]
  obtain r1 r2 r3 where r: "0 < r1" "0 < r2" "0 < r3"
    "dim_at (unitDimsOf s) [rot ! 0] = Fin r1"
    "dim_at (unitDimsOf s) [rot ! 1] = Fin r2"
    "dim_at (unitDimsOf s) [rot ! 2] = Fin r3"
    by blast
  let ?a = "r1 * (1 - sx)" and ?b = "r2 * (1 - sy)" and ?c = "r3 * (1 - sz)"
  have pos: "0 < ?a" "0 < ?b" "0 < ?c"
    using r q by simp_all
  have il: "L (internalDimsOf cfg) = Fin il" "W (internalDimsOf cfg) = Fin iw"
    "H (internalDimsOf cfg) = Fin ih"
    using i by simp_all
  have ne: "?a \<noteq> 0" "?b \<noteq> 0" "?c \<noteq> 0"
    using r q by simp_all
  note tr = tryRotation_Fin [OF r(4-6) q(1-3) il ne]
  from a(2) have cpos: "0 < \<lfloor>il / ?a\<rfloor> * \<lfloor>iw / ?b\<rfloor> * \<lfloor>ih / ?c\<rfloor>"
    unfolding a_def tr(4) zero_less_Fin of_int_0_less_iff .
  have "0 \<le> \<lfloor>il / ?a\<rfloor>" "0 \<le> \<lfloor>iw / ?b\<rfloor>" "0 \<le> \<lfloor>ih / ?c\<rfloor>"
    using pos i by simp_all
  with cpos have "1 \<le> \<lfloor>il / ?a\<rfloor> \<and> 1 \<le> \<lfloor>iw / ?b\<rfloor> \<and> 1 \<le> \<lfloor>ih / ?c\<rfloor>"
    by (simp only: int_prod3_pos)
  then show "Fin 1 \<le> nx a \<and> Fin 1 \<le> ny a \<and> Fin 1 \<le> nz a"
    unfolding a_def tr(1-3) by simp
qed

lemmas eval_defs = arrangementsOf_def rotations_def tryRotation_def
     unitDimsOf_def internalDimsOf_def calculateInternalDims_def dim_at_def Let_def

lemma Math_min3_Fin: "Math_min [Fin a, Fin b, Fin c] = Fin (min (min a b) c)"
  by (simp add: Math_min_def min2_def min_def)

lemma findFailingAxis_Fin:
  assumes "L u = Fin ul" "W u = Fin uw" "H u = Fin uh"
  shows "findFailingAxis u i =
     (if filter (\<lambda>axis. dim_at i axis < Fin (min (min ul uw) uh)) [''L'', ''W'', ''H''] = []
      then [''all'']
      else filter (\<lambda>axis. dim_at i axis < Fin (min (min ul uw) uh)) [''L'', ''W'', ''H''])"
  unfolding findFailingAxis_def Let_def assms Math_min3_Fin
  by (simp only: length_greater_0_conv if_not_P split: if_splits) auto

lemma noFit_positive_extents:
  assumes u: "L s = Fin ul" "W s = Fin uw" "H s = Fin uh" "0 < ul" "0 < uw" "0 < uh"
    and i: "internalDimsOf cfg = \<lparr>L = Fin il, W = Fin iw, H = Fin ih\<rparr>" "0 < il" "0 < iw" "0 < ih"
    and q: "x (squish_pct (solver cfg)) = Fin sx" "y (squish_pct (solver cfg)) = Fin sy"
      "z (squish_pct (solver cfg)) = Fin sz" "sx < 1" "sy < 1" "sz < 1"
    and nofit: "\<forall>a \<in> set (arrangementsOf s cfg). \<not> (Fin 1 \<le> nx a \<and> Fin 1 \<le> ny a \<and> Fin 1 \<le> nz a)"
  shows "findBestArrangement s cfg
           = NoFit ''SKU dimensions too large for masterpack''
               (findFailingAxis (unitDimsOf s) (internalDimsOf cfg))"
    and "findFailingAxis (unitDimsOf s) (internalDimsOf cfg) =
     (if filter (\<lambda>axis. dim_at (internalDimsOf cfg) axis < Fin (min (min ul uw) uh))
           [''L'', ''W'', ''H''] = []
      then [''all'']
      else filter (\<lambda>axis. dim_at (internalDimsOf cfg) axis < Fin (min (min ul uw) uh))
           [''L'', ''W'', ''H''])"
proof -
  have "\<forall>a \<in> set (arrangementsOf s cfg). \<not> 0 < count a"
    using arrangement_counts [OF u i q] nofit by blast
  then show "findBestArrangement s cfg
           = NoFit ''SKU dimensions too large for masterpack''
               (findFailingAxis (unitDimsOf s) (internalDimsOf cfg))"
    by (rule findBestArrangement_NoFit)
  have "L (unitDimsOf s) = Fin ul" "W (unitDimsOf s) = Fin uw" "H (unitDimsOf s) = Fin uh"
    using u by (simp_all add: unitDimsOf_def)
  then show "findFailingAxis (unitDimsOf s) (internalDimsOf cfg) =
     (if filter (\<lambda>axis. dim_at (internalDimsOf cfg) axis < Fin (min (min ul uw) uh))
           [''L'', ''W'', ''H''] = []
      then [''all'']
      else filter (\<lambda>axis. dim_at (internalDimsOf cfg) axis < Fin (min (min ul uw) uh))
           [''L'', ''W'', ''H''])"
    by (rule findFailingAxis_Fin)
qed

lemma arrangements_B: "\<forall>a \<in> set (arrangementsOf skuB cfgB). \<not> 0 < count a"
  by (simp add: eval_defs skuB_def cfgB_def)

lemma scenario_B:
  "findBestArrangement skuB cfgB
     = NoFit ''SKU dimensions too large for masterpack'' [''L'', ''W'', ''H'']"
  unfolding findBestArrangement_NoFit [OF arrangements_B]
  by (simp add: findFailingAxis_def Math_min_def min2_def
        unitDimsOf_def internalDimsOf_def calculateInternalDims_def dim_at_def skuB_def cfgB_def)

lemma arrangements_D: "\<forall>a \<in> set (arrangementsOf skuA cfgD). \<not> 0 < count a"
  by (simp add: eval_defs skuA_def cfgD_def)

lemma scenario_D:
  "findBestArrangement skuA cfgD
     = NoFit ''SKU dimensions too large for masterpack'' [''L'', ''W'', ''H'']"
  unfolding findBestArrangement_NoFit [OF arrangements_D]
  by (simp add: findFailingAxis_def Math_min_def min2_def
        unitDimsOf_def internalDimsOf_def calculateInternalDims_def dim_at_def skuA_def cfgD_def)

lemma scenario_A:
  "findBestArrangement skuA cfgA = Fits
    \<lparr>rotation = ''HLW'', nx = Fin 8, ny = Fin 2, nz = Fin 3, count = Fin 48,
     utilization = Fin (3 / 4),
     rotatedDims = \<lparr>L = Fin 3, W = Fin 6, H = Fin 4\<rparr>,
     adjustedDims = \<lparr>L = Fin 3, W = Fin 6, H = Fin 4\<rparr>,
     score = Fin (13747 / 10), unitWeightLb = Fin (1 / 2),
     totalProductWeight = Fin 24, grossCaseWeight = Fin 26,
     isLowDensity = False, isHeavy = False,
     internalDims = \<lparr>L = Fin 24, W = Fin 16, H = Fin 12\<rparr>\<rparr>"
  by (simp add: findBestArrangement_def eval_defs skuA_def cfgA_def scoreArrangement_def js_sort_def
     arrangement.defs scored_arrangement.defs fit.defs zero_jsnum_def)

lemma scenario_E:
  "findBestArrangement skuU cfgE
      = Fits
         \<lparr>rotation = ''LWH'', nx = Fin (- 2), ny = Fin (- 2), nz = Fin 8,
          count = Fin 32, utilization = Fin 1,
          rotatedDims = \<lparr>L = Fin 1, W = Fin 1, H = Fin 1\<rparr>,
          adjustedDims = \<lparr>L = Fin 1, W = Fin 1, H = Fin 1\<rparr>,
          score = Fin (2696 / 5), unitWeightLb = Fin (1 / 2),
          totalProductWeight = Fin 16, grossCaseWeight = Fin 18,
          isLowDensity = False, isHeavy = False,
          internalDims = \<lparr>L = Fin (- 2), W = Fin (- 2), H = Fin 8\<rparr>\<rparr>"
  by (simp add: findBestArrangement_def eval_defs skuU_def cfgE_def scoreArrangement_def
      js_sort_def arrangement.defs scored_arrangement.defs fit.defs zero_jsnum_def)

lemma scenario_S:
  "findBestArrangement skuU cfgS
      = Fits
         \<lparr>rotation = ''LWH'', nx = Fin (- 14), ny = Fin (- 14), nz = Fin 10,
          count = Fin 1960, utilization = Fin (441 / 400),
          rotatedDims = \<lparr>L = Fin 1, W = Fin 1, H = Fin 1\<rparr>,
          adjustedDims = \<lparr>L = Fin (- (3 / 4)), W = Fin (- (3 / 4)), H = Fin 1\<rparr>,
          score = Fin (2281 / 4), unitWeightLb = Fin (1 / 2),
          totalProductWeight = Fin 980, grossCaseWeight = Fin 982,
          isLowDensity = False, isHeavy = True,
          internalDims = \<lparr>L = Fin 10, W = Fin 10, H = Fin 10\<rparr>\<rparr>"
  by (simp add: findBestArrangement_def eval_defs skuU_def cfgS_def scoreArrangement_def
      js_sort_def arrangement.defs scored_arrangement.defs fit.defs zero_jsnum_def)

text \<open>
  Claim C5 does not hold of the program. The unit 1 by 1 by 1 does not fit the internal
  dimensions -2 by -2 by 8 of a 10 by 10 by 20 masterpack with walls of 6: each of the six
  rotations has the counts -2, -2 and 8, so that none has a count of at least 1 on the
  three axes. The claim asks for the NoFit result, with the failing axes L and W that
  \<open>findFailingAxis\<close> computes. The program keeps the rotations whose total count is
  positive, without a test of the count of each axis, and the product 32 of these counts
  is positive: it reports a fit of 32 units. \<open>calculateUnitsPerOrientation\<close>, which
  tests the count of each axis, returns the all-zero result on the same dimensions. On
  the unit 20 by 20 by 20 and the internal dimensions 18 by 18 by 18 the program does
  return NoFit with the axes L, W and H.
\<close>

theorem total_count_filter_scenario:
  "unitDimsOf skuU = \<lparr>L = Fin 1, W = Fin 1, H = Fin 1\<rparr>
   \<and> internalDimsOf cfgE = \<lparr>L = Fin (- 2), W = Fin (- 2), H = Fin 8\<rparr>
   \<and> \<not> (\<exists>a \<in> set (arrangementsOf skuU cfgE). Fin 1 \<le> nx a \<and> Fin 1 \<le> ny a \<and> Fin 1 \<le> nz a)
   \<and> findFailingAxis (unitDimsOf skuU) (internalDimsOf cfgE) = [''L'', ''W'']
   \<and> fits (findBestArrangement skuU cfgE)
   \<and> (\<exists>b. findBestArrangement skuU cfgE = Fits b \<and> rotation b = ''LWH''
         \<and> nx b = Fin (- 2) \<and> ny b = Fin (- 2) \<and> nz b = Fin 8 \<and> count b = Fin 32
         \<and> utilization b = Fin 1)
   \<and> calculateUnitsPerOrientation (unitDimsOf skuU) (internalDimsOf cfgE) None
      = \<lparr> u_nx = Fin 0, u_ny = Fin 0, u_nz = Fin 0, u_count = Fin 0, u_utilization = Fin 0 \<rparr>
   \<and> unitDimsOf skuB = \<lparr>L = Fin 20, W = Fin 20, H = Fin 20\<rparr>
   \<and> internalDimsOf cfgB = \<lparr>L = Fin 18, W = Fin 18, H = Fin 18\<rparr>
   \<and> findBestArrangement skuB cfgB
       = NoFit ''SKU dimensions too large for masterpack'' [''L'', ''W'', ''H'']"
proof -
  have "unitDimsOf skuU = \<lparr>L = Fin 1, W = Fin 1, H = Fin 1\<rparr>"
    by (simp add: unitDimsOf_def skuU_def)
  moreover have "internalDimsOf cfgE = \<lparr>L = Fin (- 2), W = Fin (- 2), H = Fin 8\<rparr>"
    by (simp add: internalDimsOf_def calculateInternalDims_def cfgE_def)
  moreover have "\<not> (\<exists>a \<in> set (arrangementsOf skuU cfgE).
      Fin 1 \<le> nx a \<and> Fin 1 \<le> ny a \<and> Fin 1 \<le> nz a)"
    by (simp add: eval_defs skuU_def cfgE_def)
  moreover have "findFailingAxis (unitDimsOf skuU) (internalDimsOf cfgE) = [''L'', ''W'']"
    by (simp add: findFailingAxis_def Math_min_def min2_def
        unitDimsOf_def internalDimsOf_def calculateInternalDims_def dim_at_def skuU_def cfgE_def)
  moreover have "fits (findBestArrangement skuU cfgE)"
    unfolding scenario_E by simp
  moreover have "\<exists>b. findBestArrangement skuU cfgE = Fits b \<and> rotation b = ''LWH''
         \<and> nx b = Fin (- 2) \<and> ny b = Fin (- 2) \<and> nz b = Fin 8 \<and> count b = Fin 32
         \<and> utilization b = Fin 1"
    unfolding scenario_E by simp
  moreover have "calculateUnitsPerOrientation (unitDimsOf skuU) (internalDimsOf cfgE) None
      = \<lparr> u_nx = Fin 0, u_ny = Fin 0, u_nz = Fin 0, u_count = Fin 0, u_utilization = Fin 0 \<rparr>"
    by (simp add: calculateUnitsPerOrientation_def Let_def unitDimsOf_def internalDimsOf_def
        calculateInternalDims_def skuU_def cfgE_def)
  moreover have "unitDimsOf skuB = \<lparr>L = Fin 20, W = Fin 20, H = Fin 20\<rparr>"
    by (simp add: unitDimsOf_def skuB_def)
  moreover have "internalDimsOf cfgB = \<lparr>L = Fin 18, W = Fin 18, H = Fin 18\<rparr>"
    by (simp add: internalDimsOf_def calculateInternalDims_def cfgB_def)
  ultimately show ?thesis
    using scenario_B by simp
qed

text \<open>
  The claim C6 as the specification states it fails: a unit with the extents -1, -1 and 1
  is not rejected. Every rotation has two negative counts, a count of 1000, and the
  solver returns a fitting arrangement.
\<close>

theorem negative_dims_counterexample:
  "findBestArrangement skuC cfgC
   = Fits
      \<lparr>rotation = ''LHW'', nx = Fin (- 10), ny = Fin 10, nz = Fin (- 10),
       count = Fin 1000, utilization = Fin 1,
       rotatedDims = \<lparr>L = Fin (- 1), W = Fin 1, H = Fin (- 1)\<rparr>,
       adjustedDims = \<lparr>L = Fin (- 1), W = Fin 1, H = Fin (- 1)\<rparr>,
       score = Fin 521, unitWeightLb = Fin (1 / 2),
       totalProductWeight = Fin 500, grossCaseWeight = Fin 502,
       isLowDensity = False, isHeavy = True,
       internalDims = \<lparr>L = Fin 10, W = Fin 10, H = Fin 10\<rparr>\<rparr>"
  by (simp add: findBestArrangement_def eval_defs skuC_def cfgC_def scoreArrangement_def js_sort_def
     arrangement.defs scored_arrangement.defs fit.defs zero_jsnum_def)

text \<open>
  Claim C6, as the program is designed. No input is rejected and every input is solved:
  for every unit and configuration, also with a zero or negative dimension,
  \<open>findBestArrangement\<close> evaluates the six rotations and returns either a fit, whose
  counts and utilization are those of one of the six rotations, or the NoFit result with
  the failing axes. A rotation with a count of at least 1 on each of the three axes
  gives a fit, and when no rotation has a positive total count the result is NoFit. The
  result for a positive total count that comes from negative counts is left open.
  \<open>calculateUnitsPerOrientation\<close> returns the all-zero result when one of the three
  counts is not positive.
\<close>

theorem no_input_validation:
  "length (arrangementsOf s cfg) = 6
   \<and> (findBestArrangement s cfg
          = NoFit ''SKU dimensions too large for masterpack''
              (findFailingAxis (unitDimsOf s) (internalDimsOf cfg))
        \<or> (\<exists>b. findBestArrangement s cfg = Fits b))
   \<and> (\<forall>b. findBestArrangement s cfg = Fits b \<longrightarrow>
        (\<exists>a \<in> set (arrangementsOf s cfg). rotation b = rotation a
            \<and> nx b = nx a \<and> ny b = ny a \<and> nz b = nz a
            \<and> count b = count a \<and> utilization b = utilization a))
   \<and> ((\<exists>a \<in> set (arrangementsOf s cfg). Fin 1 \<le> nx a \<and> Fin 1 \<le> ny a \<and> Fin 1 \<le> nz a)
        \<longrightarrow> fits (findBestArrangement s cfg))
   \<and> ((\<forall>a \<in> set (arrangementsOf s cfg). \<not> 0 < count a) \<longrightarrow>
        findBestArrangement s cfg
          = NoFit ''SKU dimensions too large for masterpack''
              (findFailingAxis (unitDimsOf s) (internalDimsOf cfg)))
   \<and> (Math_floor (L i / (L u * (Fin 1 - x q))) \<le> 0
        \<or> Math_floor (W i / (W u * (Fin 1 - y q))) \<le> 0
        \<or> Math_floor (H i / (H u * (Fin 1 - z q))) \<le> 0 \<longrightarrow>
        calculateUnitsPerOrientation u i (Some q)
          = \<lparr> u_nx = Fin 0, u_ny = Fin 0, u_nz = Fin 0, u_count = Fin 0, u_utilization = Fin 0 \<rparr>)"
proof -
  have c1: "length (arrangementsOf s cfg) = 6"
    by (rule length_arrangementsOf)
  have c2: "findBestArrangement s cfg
          = NoFit ''SKU dimensions too large for masterpack''
              (findFailingAxis (unitDimsOf s) (internalDimsOf cfg))
        \<or> (\<exists>b. findBestArrangement s cfg = Fits b)"
    by (simp add: findBestArrangement_def Let_def)
  have c3: "\<forall>b. findBestArrangement s cfg = Fits b \<longrightarrow>
        (\<exists>a \<in> set (arrangementsOf s cfg). rotation b = rotation a
            \<and> nx b = nx a \<and> ny b = ny a \<and> nz b = nz a
            \<and> count b = count a \<and> utilization b = utilization a)"
    using findBestArrangement_Fits [of s cfg] by blast
  have c4: "(\<exists>a \<in> set (arrangementsOf s cfg). Fin 1 \<le> nx a \<and> Fin 1 \<le> ny a \<and> Fin 1 \<le> nz a)
        \<longrightarrow> fits (findBestArrangement s cfg)"
    using findBestArrangement_NoFit_iff [of s cfg] counts_ge_one_fit [of _ s cfg] by blast
  have c5: "(\<forall>a \<in> set (arrangementsOf s cfg). \<not> 0 < count a) \<longrightarrow>
        findBestArrangement s cfg
          = NoFit ''SKU dimensions too large for masterpack''
              (findFailingAxis (unitDimsOf s) (internalDimsOf cfg))"
    using findBestArrangement_NoFit [of s cfg] by blast
  have c6: "Math_floor (L i / (L u * (Fin 1 - x q))) \<le> 0
        \<or> Math_floor (W i / (W u * (Fin 1 - y q))) \<le> 0
        \<or> Math_floor (H i / (H u * (Fin 1 - z q))) \<le> 0 \<longrightarrow>
        calculateUnitsPerOrientation u i (Some q)
          = \<lparr> u_nx = Fin 0, u_ny = Fin 0, u_nz = Fin 0, u_count = Fin 0, u_utilization = Fin 0 \<rparr>"
    by (auto simp add: calculateUnitsPerOrientation_def Let_def)
  from c1 c2 c3 c4 c5 c6 show ?thesis by (intro conjI)
qed

theorem no_input_validation_witness:
  "(\<exists>a \<in> set (arrangementsOf skuA cfgA). Fin 1 \<le> nx a \<and> Fin 1 \<le> ny a \<and> Fin 1 \<le> nz a)
   \<and> fits (findBestArrangement skuA cfgA)
   \<and> (\<exists>b. findBestArrangement skuA cfgA = Fits b
        \<and> (\<exists>a \<in> set (arrangementsOf skuA cfgA). rotation b = rotation a
             \<and> nx b = nx a \<and> ny b = ny a \<and> nz b = nz a
             \<and> count b = count a \<and> utilization b = utilization a))
   \<and> internalDimsOf cfgD = \<lparr>L = Fin (- 2), W = Fin (- 2), H = Fin (- 2)\<rparr>
   \<and> \<not> (\<exists>a \<in> set (arrangementsOf skuA cfgD). 0 < count a)
   \<and> findBestArrangement skuA cfgD
       = NoFit ''SKU dimensions too large for masterpack''
           (findFailingAxis (unitDimsOf skuA) (internalDimsOf cfgD))
   \<and> findFailingAxis (unitDimsOf skuA) (internalDimsOf cfgD) = [''L'', ''W'', ''H'']
   \<and> Math_floor (L \<lparr>L = Fin 10, W = Fin 10, H = Fin 10\<rparr>
         / (L \<lparr>L = Fin (- 1), W = Fin (- 1), H = Fin 1\<rparr>
             * (Fin 1 - x \<lparr>x = Fin 0, y = Fin 0, z = Fin 0\<rparr>))) \<le> 0
   \<and> calculateUnitsPerOrientation \<lparr>L = Fin (- 1), W = Fin (- 1), H = Fin 1\<rparr>
        \<lparr>L = Fin 10, W = Fin 10, H = Fin 10\<rparr> (Some \<lparr>x = Fin 0, y = Fin 0, z = Fin 0\<rparr>)
       = \<lparr> u_nx = Fin 0, u_ny = Fin 0, u_nz = Fin 0, u_count = Fin 0, u_utilization = Fin 0 \<rparr>"
proof -
  have a: "\<exists>a \<in> set (arrangementsOf skuA cfgA). Fin 1 \<le> nx a \<and> Fin 1 \<le> ny a \<and> Fin 1 \<le> nz a"
    by (simp add: eval_defs skuA_def cfgA_def)
  have i: "internalDimsOf cfgD = \<lparr>L = Fin (- 2), W = Fin (- 2), H = Fin (- 2)\<rparr>"
    by (simp add: internalDimsOf_def calculateInternalDims_def cfgD_def)
  have d: "\<forall>a \<in> set (arrangementsOf skuA cfgD). \<not> 0 < count a"
    by (rule arrangements_D)
  have ax: "findFailingAxis (unitDimsOf skuA) (internalDimsOf cfgD) = [''L'', ''W'', ''H'']"
    by (simp add: findFailingAxis_def Math_min_def min2_def
        unitDimsOf_def internalDimsOf_def calculateInternalDims_def dim_at_def skuA_def cfgD_def)
  have f: "Math_floor (L \<lparr>L = Fin 10, W = Fin 10, H = Fin 10\<rparr>
         / (L \<lparr>L = Fin (- 1), W = Fin (- 1), H = Fin 1\<rparr>
             * (Fin 1 - x \<lparr>x = Fin 0, y = Fin 0, z = Fin 0\<rparr>))) \<le> 0"
    by simp
  note t1 = no_input_validation [of skuA cfgA "\<lparr>L = Fin 10, W = Fin 10, H = Fin 10\<rparr>"
        "\<lparr>L = Fin (- 1), W = Fin (- 1), H = Fin 1\<rparr>" "\<lparr>x = Fin 0, y = Fin 0, z = Fin 0\<rparr>"]
  note t2 = no_input_validation [of skuA cfgD "\<lparr>L = Fin 10, W = Fin 10, H = Fin 10\<rparr>"
        "\<lparr>L = Fin (- 1), W = Fin (- 1), H = Fin 1\<rparr>" "\<lparr>x = Fin 0, y = Fin 0, z = Fin 0\<rparr>"]
  have w1: "fits (findBestArrangement skuA cfgA)"
    using t1 a by blast
  then obtain b where b: "findBestArrangement skuA cfgA = Fits b"
    by (cases "findBestArrangement skuA cfgA") simp_all
  have w2: "\<exists>b. findBestArrangement skuA cfgA = Fits b
        \<and> (\<exists>a \<in> set (arrangementsOf skuA cfgA). rotation b = rotation a
             \<and> nx b = nx a \<and> ny b = ny a \<and> nz b = nz a
             \<and> count b = count a \<and> utilization b = utilization a)"
    using t1 b by blast
  have w3: "findBestArrangement skuA cfgD
       = NoFit ''SKU dimensions too large for masterpack''
           (findFailingAxis (unitDimsOf skuA) (internalDimsOf cfgD))"
    using t2 d by blast
  have w4: "calculateUnitsPerOrientation \<lparr>L = Fin (- 1), W = Fin (- 1), H = Fin 1\<rparr>
        \<lparr>L = Fin 10, W = Fin 10, H = Fin 10\<rparr> (Some \<lparr>x = Fin 0, y = Fin 0, z = Fin 0\<rparr>)
       = \<lparr> u_nx = Fin 0, u_ny = Fin 0, u_nz = Fin 0, u_count = Fin 0, u_utilization = Fin 0 \<rparr>"
    using t1 f by blast
  have d': "\<not> (\<exists>a \<in> set (arrangementsOf skuA cfgD). 0 < count a)"
    using d by blast
  from a w1 w2 i d' w3 ax f w4 show ?thesis by (intro conjI)
qed

text \<open>
  A unit with a zero extent is not rejected either: the division by zero gives an
  infinite count, and the arrangement counts as fitting.
\<close>

lemma zero_extent_scenario:
  "findBestArrangement
     \<lparr> L = Fin 0, W = Fin 1, H = Fin 1, sku = ''Z'', oz = Fin 8, current_baseline = None \<rparr> cfgC
   = Fits
      \<lparr>rotation = ''LWH'', nx = PInf, ny = Fin 10, nz = Fin 10, count = PInf,
       utilization = NaN, rotatedDims = \<lparr>L = Fin 0, W = Fin 1, H = Fin 1\<rparr>,
       adjustedDims = \<lparr>L = Fin 0, W = Fin 1, H = Fin 1\<rparr>, score = NaN,
       unitWeightLb = Fin (1 / 2), totalProductWeight = PInf,
       grossCaseWeight = PInf, isLowDensity = False, isHeavy = True,
       internalDims = \<lparr>L = Fin 10, W = Fin 10, H = Fin 10\<rparr>\<rparr>"
  by (simp add: findBestArrangement_def eval_defs cfgC_def scoreArrangement_def js_sort_def
     arrangement.defs scored_arrangement.defs fit.defs zero_jsnum_def minus_jsnum_def)

text \<open>
  Claim C3 does not hold of the program. The unit 1 by 1 by 1 and the internal dimensions
  10 by 10 by 10 are positive. With a compression allowance of 1.75 on the first two
  axes the adjusted extents are -0.75, -0.75 and 1 and the counts are -14, -14 and 10;
  their product 1960 is positive, so the arrangement is returned as fitting, and its
  utilization 1960 * 0.5625 / 1000 is 1.1025, above 1. With the numbers of the program
  the bound is also passed by rounding alone, without compression: the unit 1 by 1.3 by 1
  fills the internal dimensions 2 by 3.9 by 4 with 24 units, and the utilization computed
  in double precision is 1.0000000000000002; the exact numbers of this theory do not
  show it.
\<close>

theorem utilization_above_one_scenario:
  "unitDimsOf skuU = \<lparr>L = Fin 1, W = Fin 1, H = Fin 1\<rparr>
   \<and> internalDimsOf cfgS = \<lparr>L = Fin 10, W = Fin 10, H = Fin 10\<rparr>
   \<and> squish_pct (solver cfgS) = \<lparr>x = Fin (7 / 4), y = Fin (7 / 4), z = Fin 0\<rparr>
   \<and> fits (findBestArrangement skuU cfgS)
   \<and> (\<exists>b. findBestArrangement skuU cfgS = Fits b \<and> rotation b = ''LWH''
         \<and> adjustedDims b = \<lparr>L = Fin (- (3 / 4)), W = Fin (- (3 / 4)), H = Fin 1\<rparr>
         \<and> nx b = Fin (- 14) \<and> ny b = Fin (- 14) \<and> nz b = Fin 10 \<and> count b = Fin 1960
         \<and> utilization b = Fin (441 / 400) \<and> Fin 1 < utilization b)"
proof -
  have u: "unitDimsOf skuU = \<lparr>L = Fin 1, W = Fin 1, H = Fin 1\<rparr>"
    by (simp add: unitDimsOf_def skuU_def)
  have i: "internalDimsOf cfgS = \<lparr>L = Fin 10, W = Fin 10, H = Fin 10\<rparr>"
    by (simp add: internalDimsOf_def calculateInternalDims_def cfgS_def)
  have q: "squish_pct (solver cfgS) = \<lparr>x = Fin (7 / 4), y = Fin (7 / 4), z = Fin 0\<rparr>"
    by (simp add: cfgS_def)
  have f: "fits (findBestArrangement skuU cfgS)"
    unfolding scenario_S by simp
  have g: "\<exists>b. findBestArrangement skuU cfgS = Fits b \<and> rotation b = ''LWH''
         \<and> adjustedDims b = \<lparr>L = Fin (- (3 / 4)), W = Fin (- (3 / 4)), H = Fin 1\<rparr>
         \<and> nx b = Fin (- 14) \<and> ny b = Fin (- 14) \<and> nz b = Fin 10 \<and> count b = Fin 1960
         \<and> utilization b = Fin (441 / 400) \<and> Fin 1 < utilization b"
    unfolding scenario_S by simp
  from u i q f g show ?thesis by (intro conjI)
qed

section \<open>Scoring a candidate: facts\<close>

lemma jsnum_add_0 [simp]: "Fin 0 + a = a" "a + Fin 0 = a"
  by (cases a; simp)+

lemma jsnum_mult_commute: "(a::jsnum) * b = b * a"
  by (cases a; cases b) (simp_all add: mult.commute)

lemma jsnum_add_assoc: "((a::jsnum) + b) + c = a + (b + c)"
  by (cases a; cases b; cases c) simp_all

lemma foldl_add_map:
  "foldl (\<lambda>sum r. sum + f r) acc (map g vs) = foldl (+) (acc::jsnum) (map (\<lambda>v. f (g v)) vs)"
  by (induction vs arbitrary: acc) simp_all

lemma zero_less_or_zero [simp]: "(0 < or_zero v) = (0 < v)"
  by (cases v) (auto simp add: or_zero_def zero_jsnum_def)


lemma not_sentinel_pos [simp]: "\<not> 0 < Fin (- 1000)"
  by simp

lemma scoreBoxCandidate_Rejected:
  assumes "\<exists>s \<in> set skus. \<not> fits (findBestArrangement s (testConfig cfg d))"
  shows "scoreBoxCandidate d skus cfg pf
           = Rejected (Fin (- 1000)) (map (\<lambda>s. skuResult s (testConfig cfg d)) skus)"
proof -
  have "\<not> list_all r_fits (map (\<lambda>s. skuResult s (testConfig cfg d)) skus)"
    using assms by (auto simp add: list_all_iff skuResult_def Let_def)
  then show ?thesis
    by (simp add: scoreBoxCandidate_def Let_def)
qed

lemma score_formula:
  "(if ci then ((Fin 0 + u * Fin 500 - v * Fin (1 / 10)) + b * Fin 300 + Fin 200) + cv * Fin 300
    else (Fin 0 + u * Fin 500 - v * Fin (1 / 10)) + b * Fin 300)
   = Fin 500 * u - Fin (1 / 10) * v + Fin 300 * b
       + (if ci then Fin 200 + Fin 300 * cv else Fin 0)"
proof -
  have "u * Fin 500 = Fin 500 * u" "v * Fin (1 / 10) = Fin (1 / 10) * v"
    "b * Fin 300 = Fin 300 * b" "cv * Fin 300 = Fin 300 * cv"
    by (rule jsnum_mult_commute)+
  then show ?thesis
    by (simp only: jsnum_add_0 jsnum_add_assoc split: if_splits) simp
qed

lemma scoreBoxCandidate_Scored:
  assumes "\<forall>s \<in> set skus. fits (findBestArrangement s (testConfig cfg d))"
  shows "\<exists>b. scoreBoxCandidate d skus cfg pf = Scored b \<and> allFit b
     \<and> b_score b = Fin 500 * avgUtilization b - Fin (1 / 10) * (L d * W d * H d)
                     + Fin 300 * avgBaselineRatio b
                     + (if canInterlock pf then Fin 200 + Fin 300 * avgCoverage pf else Fin 0)
     \<and> avgUtilization b
         = foldl (+) (Fin 0) (map (\<lambda>s. r_utilization (skuResult s (testConfig cfg d))) skus)
             / Fin (real (length skus))
     \<and> avgBaselineRatio b
         = foldl (+) (Fin 0) (map (\<lambda>s. baselineRatio (skuResult s (testConfig cfg d))) skus)
             / Fin (real (length skus))
     \<and> totalVolume b = L d * W d * H d \<and> b_palletFit b = pf"
proof -
  let ?results = "map (\<lambda>s. skuResult s (testConfig cfg d)) skus"
  let ?u = "foldl (\<lambda>sum r. sum + r_utilization r) (Fin 0) ?results / Fin (real (length ?results))"
  let ?v = "L d * W d * H d"
  let ?b = "foldl (\<lambda>sum r. sum + r) (Fin 0) (map baselineRatio ?results)
              / Fin (real (length (map baselineRatio ?results)))"
  let ?s = "(if canInterlock pf
             then ((Fin 0 + ?u * Fin 500 - ?v * Fin (1 / 10)) + ?b * Fin 300 + Fin 200)
                    + avgCoverage pf * Fin 300
             else (Fin 0 + ?u * Fin 500 - ?v * Fin (1 / 10)) + ?b * Fin 300)"
  have af: "list_all r_fits ?results"
    using assms by (auto simp add: list_all_iff skuResult_def Let_def)
  have eq: "scoreBoxCandidate d skus cfg pf
      = Scored \<lparr> b_score = ?s, allFit = True, avgUtilization = ?u, totalVolume = ?v,
                 avgBaselineRatio = ?b, b_palletFit = pf, skuResults = ?results \<rparr>"
    unfolding scoreBoxCandidate_def Let_def using af by (simp only: not_True_eq_False if_False)
  have u: "?u = foldl (+) (Fin 0) (map (\<lambda>s. r_utilization (skuResult s (testConfig cfg d))) skus)
             / Fin (real (length skus))"
    unfolding foldl_add_map [of r_utilization "Fin 0" "\<lambda>s. skuResult s (testConfig cfg d)" skus]
      length_map ..
  have b: "?b = foldl (+) (Fin 0) (map (\<lambda>s. baselineRatio (skuResult s (testConfig cfg d))) skus)
             / Fin (real (length skus))"
    by (simp add: o_def)
  show ?thesis
    unfolding eq
    by (intro exI conjI, rule refl) (simp_all only: box_scored.simps score_formula u b)
qed

lemma score_pos_all_fit:
  assumes "0 < score_of (scoreBoxCandidate d skus cfg pf)"
  shows "\<forall>s \<in> set skus. fits (findBestArrangement s (testConfig cfg d))"
    and "allFit_of (scoreBoxCandidate d skus cfg pf) = Some True"
proof -
  show f: "\<forall>s \<in> set skus. fits (findBestArrangement s (testConfig cfg d))"
  proof (rule ccontr)
    assume "\<not> ?thesis"
    then have "\<exists>s \<in> set skus. \<not> fits (findBestArrangement s (testConfig cfg d))" by blast
    from scoreBoxCandidate_Rejected [OF this] assms show False by simp
  qed
  from scoreBoxCandidate_Scored [OF f, of pf]
  show "allFit_of (scoreBoxCandidate d skus cfg pf) = Some True" by auto
qed




section \<open>The search: termination and structure\<close>








lemma findOptimalMasterpack_Some:
  "findOptimalMasterpack skus cfg opts = Some res \<Longrightarrow>
   \<exists>cands. generateCandidateDimensions (optMinDim opts) (optMaxDim opts) (optStep opts) = Some cands
     \<and> optimal res = (case scoredCandidates skus cfg cands of [] \<Rightarrow> None | c # _ \<Rightarrow> Some c)
     \<and> topCandidates res = take 5 (scoredCandidates skus cfg cands)
     \<and> totalTested res = length cands
     \<and> validCandidates res = length (scoredCandidates skus cfg cands)"
  by (auto simp add: findOptimalMasterpack_def Let_def split: option.splits)


lemma set_scoredCandidates:
  "set (scoredCandidates skus cfg cands)
     = {c \<in> scoreCandidate skus cfg ` set cands. 0 < score_of (c_result c)}"
  by (auto simp add: scoredCandidates_def)

lemma scoreCandidate_sel [simp]:
  "c_dims (scoreCandidate skus cfg d) = d"
  "c_result (scoreCandidate skus cfg d) = scoreBoxCandidate d skus cfg (checkPalletFit d (pallet cfg))"
  by (simp_all add: scoreCandidate_def Let_def)

lemma scoredCandidates_member:
  assumes "c \<in> set (scoredCandidates skus cfg cands)"
  shows "c_dims c \<in> set cands" and "c = scoreCandidate skus cfg (c_dims c)"
    and "0 < score_of (c_result c)"
    and "allFit_of (c_result c) = Some True"
    and "\<forall>s \<in> set skus. fits (findBestArrangement s (testConfig cfg (c_dims c)))"
proof -
  from assms obtain d where d: "d \<in> set cands" "c = scoreCandidate skus cfg d"
    and pos: "0 < score_of (c_result c)"
    by (auto simp add: set_scoredCandidates)
  from d show "c_dims c \<in> set cands" "c = scoreCandidate skus cfg (c_dims c)" by simp_all
  from pos show "0 < score_of (c_result c)" .
  from pos d(2) have p: "0 < score_of (scoreBoxCandidate d skus cfg (checkPalletFit d (pallet cfg)))"
    by simp
  from score_pos_all_fit [OF p] d(2)
  show "allFit_of (c_result c) = Some True"
    and "\<forall>s \<in> set skus. fits (findBestArrangement s (testConfig cfg (c_dims c)))"
    by simp_all
qed

lemma optimal_in_top:
  assumes "findOptimalMasterpack skus cfg opts = Some res" "optimal res = Some c"
  shows "c \<in> set (topCandidates res)"
proof -
  from findOptimalMasterpack_Some [OF assms(1)] obtain cands where
    o: "optimal res = (case scoredCandidates skus cfg cands of [] \<Rightarrow> None | c # _ \<Rightarrow> Some c)"
    and t: "topCandidates res = take 5 (scoredCandidates skus cfg cands)"
    by blast
  from o assms(2) obtain cs where "scoredCandidates skus cfg cands = c # cs"
    by (auto split: list.splits)
  with t show ?thesis by simp
qed

lemma top_subset:
  assumes "findOptimalMasterpack skus cfg opts = Some res"
    and "generateCandidateDimensions (optMinDim opts) (optMaxDim opts) (optStep opts) = Some cands"
  shows "set (topCandidates res) \<subseteq> set (scoredCandidates skus cfg cands)"
  using findOptimalMasterpack_Some [OF assms(1)] assms(2) by (auto dest: in_set_takeD)

section \<open>The search on the scenarios\<close>


lemmas search_eval_defs = scoreCandidate_def scoreBoxCandidate_def skuResult_def testConfig_def
  checkPalletFit_def findBestArrangement_def eval_defs scoreArrangement_def js_sort_def
  arrangement.defs scored_arrangement.defs fit.defs baselineRatio_def or_zero_def zero_jsnum_def

lemma candidates_24:
  "generateCandidateDimensions (Fin 24) (Fin 24) (Fin 1) = Some [\<lparr>L = Fin 24, W = Fin 24, H = Fin 24\<rparr>]"
  by (simp add: generateCandidateDimensions_def loopL.simps loopW.simps loopH.simps
        reasonableRatio_def Math_max_def max2_def)

lemma candidates_12:
  "generateCandidateDimensions (Fin 12) (Fin 12) (Fin 1) = Some [\<lparr>L = Fin 12, W = Fin 12, H = Fin 12\<rparr>]"
  by (simp add: generateCandidateDimensions_def loopL.simps loopW.simps loopH.simps
        reasonableRatio_def Math_max_def max2_def)

lemma score_A_24:
  "scoreCandidate [skuA] cfgA \<lparr>L = Fin 24, W = Fin 24, H = Fin 24\<rparr> =
   \<lparr>c_dims = \<lparr>L = Fin 24, W = Fin 24, H = Fin 24\<rparr>,
    c_result =
      Scored
       \<lparr>b_score = Fin (- (1012 / 5)), allFit = True, avgUtilization = Fin 1,
          totalVolume = Fin 13824, avgBaselineRatio = Fin 1,
          b_palletFit =
            \<lparr>canInterlock = True, layer1Count = Fin 2, layer2Count = Fin 2,
               avgCoverage = Fin (3 / 5), layer1Coverage = Fin (3 / 5),
               layer2Coverage = Fin (3 / 5)\<rparr>,
          skuResults =
            [\<lparr>r_sku = ''A'', r_fits = True, r_count = Fin 192,
                r_utilization = Fin 1, currentBaseline = Fin 0\<rparr>]\<rparr>\<rparr>"
  by (simp add: search_eval_defs skuA_def cfgA_def)

lemma score_A_12:
  "scoreCandidate [skuA] cfgA \<lparr>L = Fin 12, W = Fin 12, H = Fin 12\<rparr> =
   \<lparr>c_dims = \<lparr>L = Fin 12, W = Fin 12, H = Fin 12\<rparr>,
    c_result =
      Scored
       \<lparr>b_score = Fin (5486 / 5), allFit = True, avgUtilization = Fin 1,
          totalVolume = Fin 1728, avgBaselineRatio = Fin 1,
          b_palletFit =
            \<lparr>canInterlock = True, layer1Count = Fin 12, layer2Count = Fin 12,
               avgCoverage = Fin (9 / 10), layer1Coverage = Fin (9 / 10),
               layer2Coverage = Fin (9 / 10)\<rparr>,
          skuResults =
            [\<lparr>r_sku = ''A'', r_fits = True, r_count = Fin 24,
                r_utilization = Fin 1, currentBaseline = Fin 0\<rparr>]\<rparr>\<rparr>"
  by (simp add: search_eval_defs skuA_def cfgA_def)

lemma fits_A_24: "fits (findBestArrangement skuA (testConfig cfgA \<lparr>L = Fin 24, W = Fin 24, H = Fin 24\<rparr>))"
  using findBestArrangement_NoFit_iff
    [of skuA "testConfig cfgA \<lparr>L = Fin 24, W = Fin 24, H = Fin 24\<rparr>"]
  by (simp add: eval_defs testConfig_def skuA_def cfgA_def)



lemma search_A_24:
  "findOptimalMasterpack [skuA] cfgA
     \<lparr>minDim = Some (Fin 24), maxDim = Some (Fin 24), step = Some (Fin 1)\<rparr>
   = Some \<lparr>optimal = None, topCandidates = [], totalTested = 1, validCandidates = 0\<rparr>"
  by (simp add: findOptimalMasterpack_def scoredCandidates_def optMinDim_def optMaxDim_def
        optStep_def candidates_24 score_A_24 js_sort_def)

lemma search_A_12:
  "findOptimalMasterpack [skuA] cfgA
     \<lparr>minDim = Some (Fin 12), maxDim = Some (Fin 12), step = Some (Fin 1)\<rparr>
   = Some \<lparr>optimal = Some (scoreCandidate [skuA] cfgA \<lparr>L = Fin 12, W = Fin 12, H = Fin 12\<rparr>),
           topCandidates = [scoreCandidate [skuA] cfgA \<lparr>L = Fin 12, W = Fin 12, H = Fin 12\<rparr>],
           totalTested = 1, validCandidates = 1\<rparr>"
  by (simp add: findOptimalMasterpack_def scoredCandidates_def optMinDim_def optMaxDim_def
        optStep_def candidates_12 score_A_12 js_sort_def)


section \<open>The claims about the search\<close>


















text \<open>
  Claim C10. Every candidate in \<open>topCandidates\<close>, and \<open>optimal\<close>, has \<open>allFit = true\<close>
  and a positive score, so a candidate whose score is not positive is not returned, also
  when it fits all products. For the 6 by 4 by 3 unit and the range from 24 to 24, the
  only candidate 24 by 24 by 24 fits the unit, its score is -202.4, and the search
  returns no candidate: \<open>validCandidates = 0\<close> and \<open>optimal\<close> undefined.
\<close>

theorem returned_candidates_positive:
  "(findOptimalMasterpack skus cfg opts = Some res \<longrightarrow>
      (\<forall>c \<in> set (topCandidates res).
          allFit_of (c_result c) = Some True \<and> 0 < score_of (c_result c))
      \<and> (\<forall>c. optimal res = Some c \<longrightarrow>
          allFit_of (c_result c) = Some True \<and> 0 < score_of (c_result c))
      \<and> (\<forall>d. \<not> 0 < score_of (c_result (scoreCandidate skus cfg d)) \<longrightarrow>
          scoreCandidate skus cfg d \<notin> set (topCandidates res)
          \<and> optimal res \<noteq> Some (scoreCandidate skus cfg d)))
   \<and> generateCandidateDimensions (Fin 24) (Fin 24) (Fin 1)
       = Some [\<lparr>L = Fin 24, W = Fin 24, H = Fin 24\<rparr>]
   \<and> fits (findBestArrangement skuA (testConfig cfgA \<lparr>L = Fin 24, W = Fin 24, H = Fin 24\<rparr>))
   \<and> allFit_of (c_result (scoreCandidate [skuA] cfgA \<lparr>L = Fin 24, W = Fin 24, H = Fin 24\<rparr>))
       = Some True
   \<and> score_of (c_result (scoreCandidate [skuA] cfgA \<lparr>L = Fin 24, W = Fin 24, H = Fin 24\<rparr>))
       = Fin (- (1012 / 5))
   \<and> findOptimalMasterpack [skuA] cfgA
        \<lparr>minDim = Some (Fin 24), maxDim = Some (Fin 24), step = Some (Fin 1)\<rparr>
      = Some \<lparr>optimal = None, topCandidates = [], totalTested = 1, validCandidates = 0\<rparr>"
proof -
  have top: "allFit_of (c_result c) = Some True \<and> 0 < score_of (c_result c)"
    if r: "findOptimalMasterpack skus cfg opts = Some res" and c: "c \<in> set (topCandidates res)"
    for c
  proof -
    from findOptimalMasterpack_Some [OF r] obtain cands where
      g: "generateCandidateDimensions (optMinDim opts) (optMaxDim opts) (optStep opts) = Some cands"
      by blast
    from top_subset [OF r g] c have m: "c \<in> set (scoredCandidates skus cfg cands)" by blast
    from scoredCandidates_member(3,4) [OF m] show ?thesis by simp
  qed
  have opt: "allFit_of (c_result c) = Some True \<and> 0 < score_of (c_result c)"
    if "findOptimalMasterpack skus cfg opts = Some res" "optimal res = Some c" for c
    using that top optimal_in_top by blast
  have general: "findOptimalMasterpack skus cfg opts = Some res \<longrightarrow>
      (\<forall>c \<in> set (topCandidates res).
          allFit_of (c_result c) = Some True \<and> 0 < score_of (c_result c))
      \<and> (\<forall>c. optimal res = Some c \<longrightarrow>
          allFit_of (c_result c) = Some True \<and> 0 < score_of (c_result c))
      \<and> (\<forall>d. \<not> 0 < score_of (c_result (scoreCandidate skus cfg d)) \<longrightarrow>
          scoreCandidate skus cfg d \<notin> set (topCandidates res)
          \<and> optimal res \<noteq> Some (scoreCandidate skus cfg d))"
    using top opt by blast
  have s: "allFit_of (c_result (scoreCandidate [skuA] cfgA \<lparr>L = Fin 24, W = Fin 24, H = Fin 24\<rparr>))
       = Some True"
    "score_of (c_result (scoreCandidate [skuA] cfgA \<lparr>L = Fin 24, W = Fin 24, H = Fin 24\<rparr>))
       = Fin (- (1012 / 5))"
    unfolding score_A_24 by simp_all
  show ?thesis
    using general candidates_24 fits_A_24 s search_A_24 by blast
qed

theorem returned_candidates_positive_witness:
  "findOptimalMasterpack [skuA] cfgA
       \<lparr>minDim = Some (Fin 12), maxDim = Some (Fin 12), step = Some (Fin 1)\<rparr>
     = Some \<lparr>optimal = Some (scoreCandidate [skuA] cfgA \<lparr>L = Fin 12, W = Fin 12, H = Fin 12\<rparr>),
             topCandidates = [scoreCandidate [skuA] cfgA \<lparr>L = Fin 12, W = Fin 12, H = Fin 12\<rparr>],
             totalTested = 1, validCandidates = 1\<rparr>
   \<and> allFit_of (c_result (scoreCandidate [skuA] cfgA \<lparr>L = Fin 12, W = Fin 12, H = Fin 12\<rparr>))
       = Some True
   \<and> 0 < score_of (c_result (scoreCandidate [skuA] cfgA \<lparr>L = Fin 12, W = Fin 12, H = Fin 12\<rparr>))
   \<and> \<not> 0 < score_of (c_result (scoreCandidate [skuA] cfgA \<lparr>L = Fin 24, W = Fin 24, H = Fin 24\<rparr>))
   \<and> scoreCandidate [skuA] cfgA \<lparr>L = Fin 24, W = Fin 24, H = Fin 24\<rparr>
       \<noteq> scoreCandidate [skuA] cfgA \<lparr>L = Fin 12, W = Fin 12, H = Fin 12\<rparr>"
proof -
  let ?d = "\<lparr>L = Fin 12, W = Fin 12, H = Fin 12\<rparr>"
  let ?o = "\<lparr>minDim = Some (Fin 12), maxDim = Some (Fin 12), step = Some (Fin 1)\<rparr>"
  let ?r = "\<lparr>optimal = Some (scoreCandidate [skuA] cfgA ?d),
             topCandidates = [scoreCandidate [skuA] cfgA ?d],
             totalTested = 1, validCandidates = 1\<rparr>"
  have n: "\<not> 0 < score_of (c_result (scoreCandidate [skuA] cfgA \<lparr>L = Fin 24, W = Fin 24, H = Fin 24\<rparr>))"
    unfolding score_A_24 by simp
  from returned_candidates_positive [of "[skuA]" cfgA ?o ?r] search_A_12 n
  show ?thesis
    by simp
qed

end
